theory Spec2Isabelle
  imports Main
begin

section \<open>Python values, exceptions and strings\<close>

text \<open>
  The assessment engine (\<^verbatim>\<open>index.py\<close>) is Python. The values a check function can return
  and the attribute values of a DynamoDB item are modelled by a JSON-like universe; a
  dictionary is an association list (first binding wins on lookup).
\<close>

datatype pyval =
    PNone
  | PBool bool
  | PInt int
  | PStr string
  | PList "pyval list"
  | PDict "(string \<times> pyval) list"

text \<open>Python truthiness, as used by \<^verbatim>\<open>x if v else y\<close> and \<^verbatim>\<open>if v:\<close>.\<close>

fun truthy :: "pyval \<Rightarrow> bool" where
  "truthy PNone = False"
| "truthy (PBool b) = b"
| "truthy (PInt n) = (n \<noteq> 0)"
| "truthy (PStr s) = (s \<noteq> [])"
| "truthy (PList xs) = (xs \<noteq> [])"
| "truthy (PDict kvs) = (kvs \<noteq> [])"

text \<open>
  Exceptions carry their class and their message. \<^verbatim>\<open>ClientError\<close> is botocore's.
  \<^verbatim>\<open>SystemExit\<close> stands for the classes that derive from \<^verbatim>\<open>BaseException\<close> but not from
  \<^verbatim>\<open>Exception\<close> (\<^verbatim>\<open>SystemExit\<close>, \<^verbatim>\<open>KeyboardInterrupt\<close>): \<^verbatim>\<open>except Exception\<close> does not
  catch them. All the other classes derive from \<^verbatim>\<open>Exception\<close>.
\<close>

datatype error =
    ClientError string
  | ValueError string
  | TypeError string
  | KeyError string
  | TimeoutError string
  | Exception string
  | SystemExit string

text \<open>\<^verbatim>\<open>str(e)\<close>; for a \<^verbatim>\<open>KeyError\<close> the message is the repr of the key.\<close>

fun str_of :: "error \<Rightarrow> string" where
  "str_of (ClientError m) = m"
| "str_of (ValueError m) = m"
| "str_of (TypeError m) = m"
| "str_of (KeyError k) = [CHR 0x27] @ k @ [CHR 0x27]"
| "str_of (TimeoutError m) = m"
| "str_of (Exception m) = m"
| "str_of (SystemExit m) = m"

fun is_ClientError :: "error \<Rightarrow> bool" where
  "is_ClientError (ClientError m) = True"
| "is_ClientError e = False"

text \<open>What \<^verbatim>\<open>except Exception\<close> catches.\<close>

fun is_Exception :: "error \<Rightarrow> bool" where
  "is_Exception (SystemExit m) = False"
| "is_Exception e = True"

text \<open>Decimal rendering of numbers, as an f-string or a template literal prints them.\<close>

definition digit_char :: "nat \<Rightarrow> char" where
  "digit_char d = ''0123456789'' ! d"

fun string_of_nat :: "nat \<Rightarrow> string" where
  "string_of_nat n =
     (if n < 10 then [digit_char n] else string_of_nat (n div 10) @ [digit_char (n mod 10)])"

definition string_of_int :: "int \<Rightarrow> string" where
  "string_of_int i = (if i < 0 then CHR ''-'' # string_of_nat (nat (- i)) else string_of_nat (nat i))"

text \<open>\<^verbatim>\<open>s.replace('s3://', '')\<close>: every occurrence, left to right, without overlap.\<close>

fun remove_s3_scheme :: "string \<Rightarrow> string" where
  "remove_s3_scheme [] = []"
| "remove_s3_scheme (c # cs) =
     (if take 5 (c # cs) = ''s3://'' then remove_s3_scheme (drop 4 cs)
      else c # remove_s3_scheme cs)"

text \<open>\<^verbatim>\<open>s.split('/', 1)\<close>: one part when there is no slash, else the text before the
  first slash and the text after it.\<close>

definition split_first_slash :: "string \<Rightarrow> string list" where
  "split_first_slash s =
     (if CHR ''/'' \<in> set s
      then [takeWhile (\<lambda>c. c \<noteq> CHR ''/'') s, tl (dropWhile (\<lambda>c. c \<noteq> CHR ''/'') s)]
      else [s])"

section \<open>The data of an assessment\<close>

text \<open>
  A criterion of a challenge configuration is a dictionary read with \<^verbatim>\<open>.get\<close>; a field
  is \<open>None\<close> when its key is absent.
\<close>

record criterion =
  criterion_id :: "string option"
  criterion_name :: "string option"
  checkFunction :: "string option"
  criterion_points :: "int option"

text \<open>\<^verbatim>\<open>criterion.get('points', 0)\<close>\<close>

definition points_of :: "criterion \<Rightarrow> int" where
  "points_of c = (case criterion_points c of None \<Rightarrow> 0 | Some p \<Rightarrow> p)"

text \<open>
  The registry item of a challenge. \<open>other_attributes\<close> holds every attribute of the item
  that the engine never reads.
\<close>

record challenge_config =
  active :: "pyval option"
  s3Location :: "string option"
  checkFunctionsFile :: "string option"
  stackNamePrefix :: "string option"
  assessmentCriteria :: "criterion list option"
  passingScore :: "int option"
  other_attributes :: "(string \<times> pyval) list"

text \<open>\<^verbatim>\<open>challenge_config.get('assessmentCriteria', [])\<close>\<close>

definition criteria_of :: "challenge_config \<Rightarrow> criterion list" where
  "criteria_of cfg = (case assessmentCriteria cfg of None \<Rightarrow> [] | Some cs \<Rightarrow> cs)"

text \<open>
  One entry of the list \<^verbatim>\<open>run_assessment\<close> returns. The key \<^verbatim>\<open>details\<close> is present on
  the entry of a check that returned, the key \<^verbatim>\<open>error\<close> on the other entries.
\<close>

record outcome =
  criterionId :: "string option"
  name :: "string option"
  points :: int
  maxPoints :: int
  implemented :: pyval
  details :: "pyval option"
  error :: "string option"

record credentials =
  aws_access_key_id :: string
  aws_secret_access_key :: string
  aws_session_token :: string

text \<open>
  A check function is opaque code. Left alone, a call of it comes back after some
  wall-clock time (in milliseconds), returning a value or raising, or it never comes back.
  When the alarm goes off while the call is still running, the handler raises
  \<^verbatim>\<open>TimeoutError\<close> inside the running function: the function lets it propagate, or it
  catches it (an \<^verbatim>\<open>except Exception\<close> around the work it was doing, as the repository's
  sample check functions have) and goes on, from then on without an alarm, to come back
  later or never.
\<close>

datatype completion =
    Returns pyval
  | Raises error

datatype course =
    Finishes nat completion
  | Never

datatype reaction =
    Propagates
  | Continues course

record behaviour =
  undisturbed :: course
  interrupted :: reaction

type_synonym check_function = "string \<Rightarrow> string \<Rightarrow> credentials \<Rightarrow> behaviour"

text \<open>The loaded module: \<^verbatim>\<open>hasattr(module, n)\<close> is \<open>m n \<noteq> None\<close>, \<^verbatim>\<open>getattr\<close> is the lookup.\<close>

type_synonym py_module = "string \<Rightarrow> check_function option"

section \<open>The timed call of a check function and the evaluation loop\<close>

text \<open>
  Time passes in the calls of check functions and in the calls of services; the engine's
  own computation between them takes none. A pending alarm is the time left until
  \<^verbatim>\<open>SIGALRM\<close> is delivered, \<open>None\<close> when no alarm is armed. An invocation of the handler
  starts with no alarm pending.
\<close>

type_synonym alarm = "nat option"

definition alarm_seconds :: nat where
  "alarm_seconds = 30"

definition timed_out :: "nat \<Rightarrow> bool" where
  "timed_out elapsed_ms = (alarm_seconds * 1000 \<le> elapsed_ms)"

definition timeout_error :: error where
  "timeout_error = TimeoutError ''Check function execution timed out''"

fun validate_result :: "pyval \<Rightarrow> error + (string \<times> pyval) list" where
  "validate_result (PDict d) =
     (if map_of d ''implemented'' = None
      then Inl (ValueError (''Check function result must include '' @ [CHR 0x27] @ ''implemented''
                            @ [CHR 0x27] @ '' key''))
      else Inr d)"
| "validate_result v = Inl (ValueError ''Check function must return a dictionary'')"

text \<open>
  The lines \<^verbatim>\<open>signal.alarm(30)\<close> and \<^verbatim>\<open>result = check_function(...)\<close>: the call as the
  engine sees it. The alarm is armed afresh, whatever was pending. A call that comes back
  within 30 seconds comes back with the rest of the alarm still pending. Otherwise the
  alarm goes off inside the call, and either its \<^verbatim>\<open>TimeoutError\<close> comes out of the call,
  or the function caught it and what it does afterwards comes out, if anything does
  (\<open>None\<close>: the call never comes back).
\<close>

definition invoke :: "behaviour \<Rightarrow> (alarm \<times> completion) option" where
  "invoke b =
     (let after_alarm =
            (case interrupted b of
               Propagates \<Rightarrow> Some (None, Raises timeout_error)
             | Continues Never \<Rightarrow> None
             | Continues (Finishes t c) \<Rightarrow> Some (None, c))
      in case undisturbed b of
           Never \<Rightarrow> after_alarm
         | Finishes t c \<Rightarrow>
             if timed_out t then after_alarm else Some (Some (alarm_seconds * 1000 - t), c))"

text \<open>
  \<^verbatim>\<open>execute_check_function\<close>. After a call that returned, \<^verbatim>\<open>signal.alarm(0)\<close> cancels the
  alarm and the value is validated: it must be a dictionary, and the dictionary must have
  the key \<^verbatim>\<open>implemented\<close>. After a call that raised, the alarm is not cancelled: it stays
  pending. The \<^verbatim>\<open>except\<close> clause logs and raises again. The result is the alarm left
  pending and what the function returned or raised; \<open>None\<close> when the call never comes back.
\<close>

definition execute_check_function ::
  "check_function \<Rightarrow> string \<Rightarrow> string \<Rightarrow> credentials
   \<Rightarrow> (alarm \<times> (error + (string \<times> pyval) list)) option" where
  "execute_check_function check_function participant_id stack_name creds =
     (case invoke (check_function participant_id stack_name creds) of
        None \<Rightarrow> None
      | Some (pending, Returns v) \<Rightarrow> Some (None, validate_result v)
      | Some (pending, Raises e) \<Rightarrow> Some (pending, Inl e))"

text \<open>\<^verbatim>\<open>result.get(key, default)\<close>\<close>

definition dict_get :: "(string \<times> pyval) list \<Rightarrow> string \<Rightarrow> pyval \<Rightarrow> pyval" where
  "dict_get d k dflt = (case map_of d k of None \<Rightarrow> dflt | Some v \<Rightarrow> v)"

text \<open>
  The body of the \<^verbatim>\<open>for\<close> loop of \<^verbatim>\<open>run_assessment\<close>, for one criterion, from the alarm
  pending before it to the alarm pending after it. The test
  \<^verbatim>\<open>hasattr(check_functions, check_function_name)\<close> stands outside the \<^verbatim>\<open>try\<close>: with a
  criterion that has no \<^verbatim>\<open>checkFunction\<close> the name is \<^verbatim>\<open>None\<close> and \<^verbatim>\<open>hasattr\<close> raises
  \<^verbatim>\<open>TypeError\<close> out of the loop. Of what \<^verbatim>\<open>execute_check_function\<close> raises,
  \<^verbatim>\<open>except Exception\<close> catches the exceptions that derive from \<^verbatim>\<open>Exception\<close>; the others
  leave the loop.
\<close>

definition check_criterion ::
  "string \<Rightarrow> string \<Rightarrow> py_module \<Rightarrow> credentials \<Rightarrow> alarm \<Rightarrow> criterion
   \<Rightarrow> (alarm \<times> (error + outcome)) option" where
  "check_criterion participant_id stack_name check_functions creds pending c =
     (case checkFunction c of
        None \<Rightarrow> Some (pending, Inl (TypeError ''hasattr(): attribute name must be string''))
      | Some check_function_name \<Rightarrow>
          (case check_functions check_function_name of
             None \<Rightarrow>
               Some (pending,
                 Inr \<lparr> criterionId = criterion_id c, name = criterion_name c, points = 0,
                       maxPoints = points_of c, implemented = PBool False, details = None,
                       error = Some (''Check function not found: '' @ check_function_name) \<rparr>)
           | Some check_function \<Rightarrow>
               (case execute_check_function check_function participant_id stack_name creds of
                  None \<Rightarrow> None
                | Some (pending', Inr result) \<Rightarrow>
                    Some (pending',
                      Inr \<lparr> criterionId = criterion_id c, name = criterion_name c,
                            points = (if truthy (dict_get result ''implemented'' (PBool False))
                                      then points_of c else 0),
                            maxPoints = points_of c,
                            implemented = dict_get result ''implemented'' (PBool False),
                            details = Some (dict_get result ''details'' (PDict [])),
                            error = None \<rparr>)
                | Some (pending', Inl e) \<Rightarrow>
                    (if is_Exception e
                     then Some (pending',
                            Inr \<lparr> criterionId = criterion_id c, name = criterion_name c, points = 0,
                                  maxPoints = points_of c, implemented = PBool False, details = None,
                                  error = Some (str_of e) \<rparr>)
                     else Some (pending', Inl e)))))"

text \<open>The loop: \<open>results\<close> is the list the source appends to.\<close>

fun assess_criteria ::
  "string \<Rightarrow> string \<Rightarrow> py_module \<Rightarrow> credentials \<Rightarrow> criterion list \<Rightarrow> outcome list \<Rightarrow> alarm
   \<Rightarrow> (alarm \<times> (error + outcome list)) option" where
  "assess_criteria participant_id stack_name check_functions creds [] results pending =
     Some (pending, Inr results)"
| "assess_criteria participant_id stack_name check_functions creds (c # cs) results pending =
     (case check_criterion participant_id stack_name check_functions creds pending c of
        None \<Rightarrow> None
      | Some (pending', Inl e) \<Rightarrow> Some (pending', Inl e)
      | Some (pending', Inr r) \<Rightarrow>
          assess_criteria participant_id stack_name check_functions creds cs (results @ [r]) pending')"

definition stack_name_of :: "challenge_config \<Rightarrow> string \<Rightarrow> string" where
  "stack_name_of cfg participant_id =
     (case stackNamePrefix cfg of None \<Rightarrow> ''reliability-challenge-'' | Some p \<Rightarrow> p) @ participant_id"

text \<open>
  \<^verbatim>\<open>run_assessment\<close>: the list of outcomes or the exception that left the loop, with the
  alarm pending when the loop is left; \<open>None\<close> when a call never comes back.
\<close>

definition run_assessment ::
  "string \<Rightarrow> challenge_config \<Rightarrow> py_module \<Rightarrow> credentials
   \<Rightarrow> (alarm \<times> (error + outcome list)) option" where
  "run_assessment participant_id cfg check_functions assumed_credentials =
     assess_criteria participant_id (stack_name_of cfg participant_id) check_functions
       assumed_credentials (criteria_of cfg) [] None"

section \<open>Scoring and feedback\<close>

definition calculate_score :: "outcome list \<Rightarrow> int" where
  "calculate_score assessment_results = sum_list (map points assessment_results)"

definition calculate_max_score :: "challenge_config \<Rightarrow> int" where
  "calculate_max_score cfg = sum_list (map points_of (criteria_of cfg))"

record feedback_implemented =
  fi_name :: "string option"
  fi_details :: pyval

record feedback_suggestion =
  fs_name :: "string option"
  fs_points :: int

record feedback =
  summary :: string
  fb_implemented :: "feedback_implemented list"
  fb_suggestions :: "feedback_suggestion list"

definition generate_feedback :: "outcome list \<Rightarrow> int \<Rightarrow> bool \<Rightarrow> feedback" where
  "generate_feedback assessment_results score passed =
     \<lparr> summary =
         (if passed
          then ''Congratulations! You'' @ [CHR 0x27] @ ''ve successfully passed the challenge with a score of ''
               @ string_of_int score @ ''.''
          else ''You'' @ [CHR 0x27] @ ''ve scored '' @ string_of_int score
               @ '' points, but need more improvements to pass the challenge.''),
       fb_implemented =
         map (\<lambda>r. \<lparr> fi_name = name r,
                     fi_details = (case details r of None \<Rightarrow> PDict [] | Some d \<Rightarrow> d) \<rparr>)
           (filter (\<lambda>r. truthy (implemented r)) assessment_results),
       fb_suggestions =
         map (\<lambda>r. \<lparr> fs_name = name r, fs_points = maxPoints r \<rparr>)
           (filter (\<lambda>r. \<not> truthy (implemented r)) assessment_results) \<rparr>"

section \<open>The collaborators of the engine\<close>

text \<open>
  The item \<^verbatim>\<open>store_assessment_results\<close> writes, and what \<^verbatim>\<open>lambda_handler\<close> returns. The
  fields read from the clock (\<^verbatim>\<open>timestamp\<close>, \<^verbatim>\<open>assessedAt\<close>) are left out of both.
\<close>

record item =
  item_participantId :: string
  item_challengeId :: string
  item_teamId :: string
  item_score :: int
  item_details :: "outcome list"
  item_passed :: bool

record response =
  participantId :: string
  challengeId :: string
  teamId :: string
  score :: int
  maxScore :: int
  passed :: bool
  results :: "outcome list"
  feedback :: feedback

text \<open>The invocation event, read with \<^verbatim>\<open>event.get\<close>.\<close>

record event =
  ev_participantId :: "string option"
  ev_challengeId :: "string option"
  ev_teamId :: "string option"

text \<open>\<^verbatim>\<open>os.environ\<close>; \<open>TEAM_ACCOUNT_MAPPING\<close> is the parsed JSON object, empty when unset.\<close>

record environ =
  CHALLENGE_REGISTRY_TABLE :: "string option"
  ASSESSMENT_RESULTS_TABLE :: "string option"
  TEAM_ACCOUNT_MAPPING :: "(string \<times> string) list"
  DEFAULT_TEAM_ACCOUNT_ID :: "string option"
  ASSESSMENT_ENGINE_EXTERNAL_ID :: "string option"

text \<open>
  The services the engine calls, as the answers they give: the registry table
  (\<^verbatim>\<open>get_item\<close>: an exception, a response without \<^verbatim>\<open>Item\<close>, or the item), S3
  (\<^verbatim>\<open>get_object\<close> and the decoding of the body), the import machinery (\<^verbatim>\<open>exec_module\<close>:
  the attributes the code defined, and the exception that stopped it, if any), STS, the
  results table (\<^verbatim>\<open>put_item\<close>: the time the call takes, in milliseconds, and what it
  raises, if anything) and CloudWatch (\<^verbatim>\<open>put_metric_data\<close>: the message of the exception
  it raises, if any; the clients of \<^verbatim>\<open>boto3\<close> report a failure by an exception that derives
  from \<^verbatim>\<open>Exception\<close>, and the engine only logs this one); and the reading of
  \<^verbatim>\<open>time.time()\<close> at the moment the module is named, in milliseconds.
\<close>

record services =
  get_item :: "string \<Rightarrow> string \<Rightarrow> error + challenge_config option"
  get_object :: "string \<Rightarrow> string \<Rightarrow> error + string"
  exec_module :: "string \<Rightarrow> py_module \<times> error option"
  assume_role :: "string \<Rightarrow> string \<Rightarrow> error + credentials"
  put_item :: "string \<Rightarrow> item \<Rightarrow> nat \<times> error option"
  put_metric_data :: "string list \<Rightarrow> string option"
  time_time :: nat

text \<open>Every call the engine makes to a service is recorded, in order.\<close>

datatype call =
    GetItem string string
  | GetObject string string
  | AssumeRole string string
  | PutItem string item
  | PutMetricData "string list"

text \<open>
  The state of the process and of the results table: the calls made so far,
  \<^verbatim>\<open>sys.modules\<close>, and the items written to the results table.
\<close>

record engine_state =
  calls :: "call list"
  sys_modules :: "string \<Rightarrow> py_module option"
  written :: "item list"

definition called :: "call \<Rightarrow> engine_state \<Rightarrow> engine_state" where
  "called c st = st\<lparr> calls := calls st @ [c] \<rparr>"

section \<open>The steps of a run\<close>

text \<open>The tables' names: \<^verbatim>\<open>os.environ.get(name, default)\<close>.\<close>

definition registry_table :: "environ \<Rightarrow> string" where
  "registry_table env =
     (case CHALLENGE_REGISTRY_TABLE env of None \<Rightarrow> ''ctf-challenge-registry'' | Some t \<Rightarrow> t)"

definition results_table :: "environ \<Rightarrow> string" where
  "results_table env =
     (case ASSESSMENT_RESULTS_TABLE env of None \<Rightarrow> ''ctf-assessment-results'' | Some t \<Rightarrow> t)"

text \<open>
  The handlers \<^verbatim>\<open>except botocore.exceptions.ClientError\<close> of the registry read, the role
  assumption and the results write: a \<^verbatim>\<open>ClientError\<close> is logged and raised again as an
  \<^verbatim>\<open>Exception\<close> with a prefixed message; any other exception passes through unchanged.
\<close>

definition config_failure :: "error \<Rightarrow> error" where
  "config_failure e =
     (if is_ClientError e then Exception (''Failed to load challenge configuration: '' @ str_of e)
      else e)"

definition role_failure :: "error \<Rightarrow> error" where
  "role_failure e =
     (if is_ClientError e then Exception (''Failed to assume role in participant account: '' @ str_of e)
      else e)"

definition store_failure :: "error \<Rightarrow> error" where
  "store_failure e =
     (if is_ClientError e then Exception (''Failed to store assessment results: '' @ str_of e)
      else e)"

definition load_challenge_config ::
  "services \<Rightarrow> environ \<Rightarrow> string \<Rightarrow> engine_state \<Rightarrow> engine_state \<times> (error + challenge_config)" where
  "load_challenge_config sv env challenge_id st =
     (let table = registry_table env;
          st1 = called (GetItem table challenge_id) st
      in case get_item sv table challenge_id of
           Inl e \<Rightarrow> (st1, Inl (config_failure e))
         | Inr None \<Rightarrow> (st1, Inl (Exception (''Challenge not found: '' @ challenge_id)))
         | Inr (Some challenge) \<Rightarrow>
             (if \<not> ((case active challenge of None \<Rightarrow> PStr ''true'' | Some v \<Rightarrow> v) = PStr ''true'')
              then (st1, Inl (Exception (''Challenge is not active: '' @ challenge_id)))
              else (st1, Inr challenge)))"

text \<open>\<^verbatim>\<open>f"check_functions_{int(time.time())}"\<close>: the clock's whole seconds.\<close>

definition module_name_of :: "nat \<Rightarrow> string" where
  "module_name_of now_ms = ''check_functions_'' @ string_of_nat (now_ms div 1000)"

definition load_failure :: "error \<Rightarrow> error" where
  "load_failure e =
     (if is_ClientError e then Exception (''Failed to load check functions from S3: '' @ str_of e)
      else if is_Exception e then Exception (''Failed to load check functions: '' @ str_of e)
      else e)"

definition load_check_functions_from_s3 ::
  "services \<Rightarrow> string \<Rightarrow> string \<Rightarrow> engine_state \<Rightarrow> engine_state \<times> (error + py_module)" where
  "load_check_functions_from_s3 sv s3_location check_functions_file st =
     (let s3_path = remove_s3_scheme s3_location;
          parts = split_first_slash s3_path;
          bucket_name = hd parts;
          key_prefix = (if length parts > 1 then parts ! 1 else []);
          st1 = called (GetObject bucket_name (key_prefix @ check_functions_file)) st
      in case get_object sv bucket_name (key_prefix @ check_functions_file) of
           Inl e \<Rightarrow> (st1, Inl (load_failure e))
         | Inr code_content \<Rightarrow>
             (case exec_module sv code_content of
                (module, failure) \<Rightarrow>
                  (let st2 = st1\<lparr> sys_modules := (sys_modules st1)(module_name_of (time_time sv) \<mapsto> module) \<rparr>
                   in case failure of
                        None \<Rightarrow> (st2, Inr module)
                      | Some e \<Rightarrow> (st2, Inl (load_failure e)))))"

definition identify_team_account :: "environ \<Rightarrow> string \<Rightarrow> string" where
  "identify_team_account env team_id =
     (case map_of (TEAM_ACCOUNT_MAPPING env) team_id of
        Some account \<Rightarrow> account
      | None \<Rightarrow> (case DEFAULT_TEAM_ACCOUNT_ID env of None \<Rightarrow> ''123456789012'' | Some a \<Rightarrow> a))"

definition assume_assessment_role ::
  "services \<Rightarrow> environ \<Rightarrow> string \<Rightarrow> engine_state \<Rightarrow> engine_state \<times> (error + credentials)" where
  "assume_assessment_role sv env account_id st =
     (let role_arn = ''arn:aws:iam::'' @ account_id @ '':role/AssessmentEngineAccessRole'';
          external_id = (case ASSESSMENT_ENGINE_EXTERNAL_ID env of
                           None \<Rightarrow> ''ctf-assessment-engine'' | Some x \<Rightarrow> x);
          st1 = called (AssumeRole role_arn external_id) st
      in case assume_role sv role_arn external_id of
           Inr creds \<Rightarrow> (st1, Inr creds)
         | Inl e \<Rightarrow> (st1, Inl (role_failure e)))"

text \<open>
  \<^verbatim>\<open>store_assessment_results\<close>: what \<^verbatim>\<open>put_item\<close> raises is raised to the handler; the
  item counts as written when \<^verbatim>\<open>put_item\<close> returned. An alarm that is pending, left armed
  by a check function that raised, goes off during the call when it takes that long: its
  \<^verbatim>\<open>TimeoutError\<close> then comes out of \<^verbatim>\<open>put_item\<close>, and is not a \<^verbatim>\<open>ClientError\<close>.
\<close>

definition alarm_fires :: "alarm \<Rightarrow> nat \<Rightarrow> bool" where
  "alarm_fires pending elapsed_ms = (case pending of None \<Rightarrow> False | Some left \<Rightarrow> left \<le> elapsed_ms)"

definition result_item :: "string \<Rightarrow> string \<Rightarrow> string \<Rightarrow> outcome list \<Rightarrow> int \<Rightarrow> bool \<Rightarrow> item" where
  "result_item participant_id challenge_id team_id assessment_results score' passed' =
     \<lparr> item_participantId = participant_id, item_challengeId = challenge_id,
       item_teamId = team_id, item_score = score', item_details = assessment_results,
       item_passed = passed' \<rparr>"

definition store_assessment_results ::
  "services \<Rightarrow> environ \<Rightarrow> string \<Rightarrow> string \<Rightarrow> string \<Rightarrow> outcome list \<Rightarrow> int \<Rightarrow> bool
   \<Rightarrow> alarm \<Rightarrow> engine_state \<Rightarrow> engine_state \<times> error option" where
  "store_assessment_results sv env participant_id challenge_id team_id assessment_results score' passed'
       pending st =
     (let table = results_table env;
          it = result_item participant_id challenge_id team_id assessment_results score' passed';
          st1 = called (PutItem table it) st
      in case put_item sv table it of
           (elapsed_ms, raised) \<Rightarrow>
             if alarm_fires pending elapsed_ms then (st1, Some timeout_error)
             else (case raised of
                     None \<Rightarrow> (st1\<lparr> written := written st1 @ [it] \<rparr>, None)
                   | Some e \<Rightarrow> (st1, Some (store_failure e))))"

text \<open>
  \<^verbatim>\<open>record_assessment_metrics\<close>: what \<^verbatim>\<open>put_metric_data\<close> raises is logged and swallowed
  by \<^verbatim>\<open>except Exception\<close>, and so is the \<^verbatim>\<open>TimeoutError\<close> of a pending alarm that goes
  off during the call: neither the answer of CloudWatch nor an alarm makes a difference
  here. \<open>record_error_metric\<close> is the same for the metric that the \<^verbatim>\<open>except\<close> clause of
  the handler records.
\<close>

definition record_assessment_metrics :: "services \<Rightarrow> engine_state \<Rightarrow> engine_state" where
  "record_assessment_metrics sv st =
     (let names = [''AssessmentScore'', ''AssessmentsPassed'', ''AssessmentDuration''];
          st1 = called (PutMetricData names) st
      in case put_metric_data sv names of
           None \<Rightarrow> st1
         | Some metric_error \<Rightarrow> st1)"

definition record_error_metric :: "services \<Rightarrow> engine_state \<Rightarrow> engine_state" where
  "record_error_metric sv st =
     (let st1 = called (PutMetricData [''AssessmentErrors'']) st
      in case put_metric_data sv [''AssessmentErrors''] of
           None \<Rightarrow> st1
         | Some metric_error \<Rightarrow> st1)"

section \<open>The handler\<close>

text \<open>
  The \<^verbatim>\<open>try\<close> block of \<^verbatim>\<open>lambda_handler\<close>: each step either hands its value to the next
  or raises, which ends the block.
\<close>

definition missing_parameters :: error where
  "missing_parameters = ValueError ''Missing required parameters: participantId and challengeId''"

text \<open>
  The local variables of \<^verbatim>\<open>lambda_handler\<close> once the role is assumed, and the steps that
  bind them: the parameters of the event, the configuration, the loaded module and the
  credentials.
\<close>

record run_context =
  ctx_participant_id :: string
  ctx_challenge_id :: string
  ctx_team_id :: string
  ctx_challenge_config :: challenge_config
  ctx_check_functions :: py_module
  ctx_assumed_credentials :: credentials

definition team_of :: "event \<Rightarrow> string" where
  "team_of ev = (case ev_teamId ev of None \<Rightarrow> ''default-team'' | Some t \<Rightarrow> t)"

definition prepare_run ::
  "services \<Rightarrow> environ \<Rightarrow> event \<Rightarrow> engine_state \<Rightarrow> engine_state \<times> (error + run_context)" where
  "prepare_run sv env ev st =
     (let pid = (case ev_participantId ev of None \<Rightarrow> [] | Some p \<Rightarrow> p);
          cid = (case ev_challengeId ev of None \<Rightarrow> [] | Some c \<Rightarrow> c)
      in if pid = [] \<or> cid = [] then (st, Inl missing_parameters)
         else
           (case load_challenge_config sv env cid st of
              (st1, Inl e) \<Rightarrow> (st1, Inl e)
            | (st1, Inr cfg) \<Rightarrow>
                (case s3Location cfg of
                   None \<Rightarrow> (st1, Inl (KeyError ''s3Location''))
                 | Some s3_location \<Rightarrow>
                     (case checkFunctionsFile cfg of
                        None \<Rightarrow> (st1, Inl (KeyError ''checkFunctionsFile''))
                      | Some check_functions_file \<Rightarrow>
                          (case load_check_functions_from_s3 sv s3_location check_functions_file st1 of
                             (st2, Inl e) \<Rightarrow> (st2, Inl e)
                           | (st2, Inr loaded) \<Rightarrow>
                               (case assume_assessment_role sv env
                                       (identify_team_account env (team_of ev)) st2 of
                                  (st3, Inl e) \<Rightarrow> (st3, Inl e)
                                | (st3, Inr creds) \<Rightarrow>
                                    (st3, Inr \<lparr> ctx_participant_id = pid, ctx_challenge_id = cid,
                                                ctx_team_id = team_of ev, ctx_challenge_config = cfg,
                                                ctx_check_functions = loaded,
                                                ctx_assumed_credentials = creds \<rparr>)))))))"

text \<open>The rest of the block: evaluation, scoring, feedback, storing, metrics, the answer.\<close>

text \<open>\<^verbatim>\<open>challenge_config.get('passingScore', 80)\<close>\<close>

definition passing_score :: "challenge_config \<Rightarrow> int" where
  "passing_score cfg = (case passingScore cfg of None \<Rightarrow> 80 | Some p \<Rightarrow> p)"

definition assess_and_store ::
  "services \<Rightarrow> environ \<Rightarrow> string \<Rightarrow> string \<Rightarrow> string \<Rightarrow> challenge_config \<Rightarrow> py_module
   \<Rightarrow> credentials \<Rightarrow> engine_state \<Rightarrow> (engine_state \<times> (error + response)) option" where
  "assess_and_store sv env participant_id challenge_id team_id cfg check_functions creds st =
     (case run_assessment participant_id cfg check_functions creds of
        None \<Rightarrow> None
      | Some (pending, Inl e) \<Rightarrow> Some (st, Inl e)
      | Some (pending, Inr assessment_results) \<Rightarrow>
          (let score' = calculate_score assessment_results;
               passed' = (score' \<ge> passing_score cfg);
               feedback' = generate_feedback assessment_results score' passed'
           in case store_assessment_results sv env participant_id challenge_id team_id
                     assessment_results score' passed' pending st of
                (st1, Some e) \<Rightarrow> Some (st1, Inl e)
              | (st1, None) \<Rightarrow>
                  Some (record_assessment_metrics sv st1,
                    Inr \<lparr> participantId = participant_id, challengeId = challenge_id,
                          teamId = team_id, score = score',
                          maxScore = calculate_max_score cfg, passed = passed',
                          results = assessment_results, feedback = feedback' \<rparr>)))"

definition lambda_handler_try ::
  "services \<Rightarrow> environ \<Rightarrow> event \<Rightarrow> engine_state \<Rightarrow> (engine_state \<times> (error + response)) option" where
  "lambda_handler_try sv env ev st =
     (case prepare_run sv env ev st of
        (st3, Inl e) \<Rightarrow> Some (st3, Inl e)
      | (st3, Inr ctx) \<Rightarrow>
          assess_and_store sv env (ctx_participant_id ctx) (ctx_challenge_id ctx) (ctx_team_id ctx)
            (ctx_challenge_config ctx) (ctx_check_functions ctx) (ctx_assumed_credentials ctx) st3)"

text \<open>
  \<^verbatim>\<open>lambda_handler\<close>: the \<^verbatim>\<open>except Exception\<close> clause logs, records the error metric and
  raises the exception again to the caller; an exception it does not catch goes to the
  caller directly. \<open>None\<close>: the handler does not come back.
\<close>

definition lambda_handler ::
  "services \<Rightarrow> environ \<Rightarrow> event \<Rightarrow> engine_state \<Rightarrow> (engine_state \<times> (error + response)) option" where
  "lambda_handler sv env ev st =
     (case lambda_handler_try sv env ev st of
        None \<Rightarrow> None
      | Some (st', Inr r) \<Rightarrow> Some (st', Inr r)
      | Some (st', Inl e) \<Rightarrow>
          (if is_Exception e then Some (record_error_metric sv st', Inl e)
           else Some (st', Inl e)))"

section \<open>The trigger (\<^verbatim>\<open>reliability-assessment-trigger.js\<close>)\<close>

text \<open>
  The trigger event, with the properties the trigger reads; \<open>None\<close> is JavaScript's
  \<^verbatim>\<open>undefined\<close>. \<open>detail_stackId\<close> is \<^verbatim>\<open>event.detail?.stackId\<close>.
\<close>

record trigger_event =
  source :: "string option"
  detail_type :: "string option"
  httpMethod :: "string option"
  path :: "string option"
  detail_stackId :: "string option"
  pathParameters_participantId :: "string option"
  event_participantId :: "string option"

text \<open>A string is truthy when it is defined and not empty.\<close>

definition js_truthy :: "string option \<Rightarrow> bool" where
  "js_truthy v = (case v of None \<Rightarrow> False | Some s \<Rightarrow> s \<noteq> [])"

definition identifyEventSource :: "trigger_event \<Rightarrow> string" where
  "identifyEventSource e =
     (if js_truthy (source e) then (case source e of Some s \<Rightarrow> s | None \<Rightarrow> [])
      else if detail_type e = Some ''Scheduled Event'' then ''scheduled-event''
      else if detail_type e = Some ''CloudFormation Stack Status Change'' then ''resource-change''
      else if js_truthy (httpMethod e) \<and> js_truthy (path e) then ''manual-api''
      else ''unknown'')"

text \<open>\<^verbatim>\<open>[...new Set(xs)]\<close>: a set keeps its elements in insertion order, each once.\<close>

definition set_add :: "'a list \<Rightarrow> 'a \<Rightarrow> 'a list" where
  "set_add seen x = (if x \<in> set seen then seen else seen @ [x])"

definition js_Set :: "'a list \<Rightarrow> 'a list" where
  "js_Set xs = foldl set_add [] xs"

text \<open>\<^verbatim>\<open>s.startsWith(p)\<close>, \<^verbatim>\<open>s.replace(p, '')\<close> (the first occurrence only) and
  \<^verbatim>\<open>s.split(d)\<close> for a one-character separator.\<close>

definition startsWith :: "string \<Rightarrow> string \<Rightarrow> bool" where
  "startsWith s p = (take (length p) s = p)"

fun remove_first :: "string \<Rightarrow> string \<Rightarrow> string" where
  "remove_first p [] = []"
| "remove_first p (c # cs) =
     (if startsWith (c # cs) p then drop (length p) (c # cs) else c # remove_first p cs)"

fun split_on :: "char \<Rightarrow> string \<Rightarrow> string list" where
  "split_on d [] = [[]]"
| "split_on d (c # cs) =
     (if c = d then [] # split_on d cs
      else (case split_on d cs of [] \<Rightarrow> [[c]] | x # xs \<Rightarrow> (c # x) # xs))"

text \<open>
  The services of the trigger, as the answers they give: the DynamoDB query of the status
  index (the \<^verbatim>\<open>participantId\<close> of each item, or the message of the rejection), the list of
  CloudFormation stack names, and \<^verbatim>\<open>lambda.invoke\<close> for the payload of a participant (the
  request id, or the message of the rejection).
\<close>

record aws =
  dynamoDB_query :: "string + string list"
  listStacks :: "string + string list"
  lambda_invoke :: "string \<Rightarrow> string + string option"

definition stack_prefix :: string where
  "stack_prefix = ''ctf-unreliable-app-''"

definition getParticipantsFromStacks :: "aws \<Rightarrow> string list" where
  "getParticipantsFromStacks svc =
     (case listStacks svc of
        Inl err \<Rightarrow> []
      | Inr stack_names \<Rightarrow>
          js_Set (map (\<lambda>n. hd (split_on CHR ''-'' (remove_first stack_prefix n)))
                    (filter (\<lambda>n. startsWith n stack_prefix) stack_names)))"

definition getActiveParticipants :: "aws \<Rightarrow> string list" where
  "getActiveParticipants svc =
     (case dynamoDB_query svc of
        Inr items \<Rightarrow> js_Set items
      | Inl err \<Rightarrow> getParticipantsFromStacks svc)"

definition extractParticipantIds :: "trigger_event \<Rightarrow> string \<Rightarrow> aws \<Rightarrow> string list" where
  "extractParticipantIds e src svc =
     (if src = ''scheduled-event'' then getActiveParticipants svc
      else if src = ''resource-change'' then
        (case detail_stackId e of
           None \<Rightarrow> []
         | Some stackId \<Rightarrow>
             (if stackId = [] then []
              else (let parts = split_on CHR ''/'' stackId
                    in if length parts \<le> 1 then []
                       else (let stackName = parts ! 1
                             in if stackName = [] \<or> \<not> startsWith stackName stack_prefix then []
                                else [hd (split_on CHR ''-'' (remove_first stack_prefix stackName))]))))
      else if src = ''manual-api'' then
        (case pathParameters_participantId e of
           Some p \<Rightarrow> if p \<noteq> [] then [p]
                     else (case event_participantId e of
                             Some q \<Rightarrow> if q \<noteq> [] then [q] else []
                           | None \<Rightarrow> [])
         | None \<Rightarrow> (case event_participantId e of
                      Some q \<Rightarrow> if q \<noteq> [] then [q] else []
                    | None \<Rightarrow> []))
      else [])"

text \<open>What \<^verbatim>\<open>triggerAssessment\<close> resolves to, for one participant.\<close>

record dispatch_record =
  dr_participantId :: string
  dr_source :: string
  dr_status :: string
  dr_requestId :: "string option"
  dr_error :: "string option"

definition triggerAssessment :: "aws \<Rightarrow> string \<Rightarrow> string \<Rightarrow> dispatch_record" where
  "triggerAssessment svc pid src =
     (case lambda_invoke svc pid of
        Inr request_id \<Rightarrow>
          \<lparr> dr_participantId = pid, dr_source = src, dr_status = ''triggered'',
            dr_requestId = request_id, dr_error = None \<rparr>
      | Inl message \<Rightarrow>
          \<lparr> dr_participantId = pid, dr_source = src, dr_status = ''failed'',
            dr_requestId = None, dr_error = Some message \<rparr>)"

text \<open>
  The handler's answer: the status code and the fields of the JSON body, together with the
  participants \<^verbatim>\<open>lambda.invoke\<close> was called for, in order. Every failure of a service
  is caught where it occurs (\<^verbatim>\<open>getActiveParticipants\<close>, \<^verbatim>\<open>getParticipantsFromStacks\<close>,
  \<^verbatim>\<open>triggerAssessment\<close>), so the handler's own \<^verbatim>\<open>catch\<close> (status 500) has no case here.
\<close>

record http_response =
  statusCode :: nat
  message :: string
  body_source :: "string option"
  body_results :: "dispatch_record list"
  invoked :: "string list"

definition handler :: "aws \<Rightarrow> trigger_event \<Rightarrow> http_response" where
  "handler svc e =
     (let src = identifyEventSource e;
          participantIds = extractParticipantIds e src svc
      in if participantIds = []
         then \<lparr> statusCode = 200, message = ''No participants to assess'', body_source = None,
                body_results = [], invoked = [] \<rparr>
         else (let rs = map (\<lambda>p. triggerAssessment svc p src) participantIds;
                   successful = length (filter (\<lambda>r. dr_status r = ''triggered'') rs);
                   failed = length (filter (\<lambda>r. dr_status r = ''failed'') rs)
               in \<lparr> statusCode = 200,
                    message = ''Triggered '' @ string_of_nat successful @ '' assessments (''
                              @ string_of_nat failed @ '' failed)'',
                    body_source = Some src, body_results = rs, invoked = participantIds \<rparr>))"

section \<open>The failure classes of a check\<close>





definition lets_timeout_propagate :: "behaviour \<Rightarrow> bool" where
  "lets_timeout_propagate b = (case interrupted b of Propagates \<Rightarrow> True | Continues c \<Rightarrow> False)"



text \<open>
  The execution of a call exceeds a deadline of so many seconds when, left alone, it has
  not come back by then.
\<close>

definition exceeds_deadline :: "nat \<Rightarrow> behaviour \<Rightarrow> bool" where
  "exceeds_deadline seconds b =
     (case undisturbed b of Never \<Rightarrow> True | Finishes t c \<Rightarrow> seconds * 1000 < t)"

text \<open>
  \<open>checked c r\<close>: the loop's body, run for the criterion \<open>c\<close>, appends the outcome \<open>r\<close>.
  (The outcome does not depend on the alarm pending before the criterion.)
\<close>

definition checked :: "string \<Rightarrow> string \<Rightarrow> py_module \<Rightarrow> credentials \<Rightarrow> criterion \<Rightarrow> outcome \<Rightarrow> bool" where
  "checked pid sn m cr c r =
     (case check_criterion pid sn m cr None c of
        Some (pending, Inr r') \<Rightarrow> r' = r
      | _ \<Rightarrow> False)"

text \<open>
  The entry that the loop appends for a criterion whose check failed: no points,
  \<open>implemented\<close> false, no details, and the description of the failure.
\<close>

definition failure_outcome :: "criterion \<Rightarrow> string \<Rightarrow> outcome" where
  "failure_outcome c description =
     \<lparr> criterionId = criterion_id c, name = criterion_name c, points = 0, maxPoints = points_of c,
       implemented = PBool False, details = None, error = Some description \<rparr>"

section \<open>A worked scenario\<close>

text \<open>
  The scenario of the specification: two criteria of ten points each, \<^verbatim>\<open>pitr\<close> checked by
  \<^verbatim>\<open>checkBackup\<close> and \<^verbatim>\<open>dlq\<close> checked by \<^verbatim>\<open>checkDLQ\<close>, and a passing score of 15. The
  services answer every call, the results table within 20 milliseconds; the module, the
  registry item and the answer of the results table are parameters, so that the same
  scenario serves for the failures as well.
\<close>

definition scenario_criteria :: "criterion list" where
  "scenario_criteria =
     [\<lparr> criterion_id = Some ''pitr'', criterion_name = Some ''Point-in-time recovery'',
        checkFunction = Some ''checkBackup'', criterion_points = Some 10 \<rparr>,
      \<lparr> criterion_id = Some ''dlq'', criterion_name = Some ''Dead-letter queue'',
        checkFunction = Some ''checkDLQ'', criterion_points = Some 10 \<rparr>]"

definition scenario_config :: "pyval option \<Rightarrow> (string \<times> pyval) list \<Rightarrow> challenge_config" where
  "scenario_config act others =
     \<lparr> active = act, s3Location = Some ''s3://ctf-challenges/demo/'',
       checkFunctionsFile = Some ''check-functions.py'', stackNamePrefix = None,
       assessmentCriteria = Some scenario_criteria, passingScore = Some 15,
       other_attributes = others \<rparr>"

text \<open>
  Check functions for the scenario: one that returns a value after so many milliseconds,
  one that raises, one that never comes back unless the alarm stops it (these three let the
  alarm's \<^verbatim>\<open>TimeoutError\<close> propagate), and one that would take so many milliseconds, catches
  the \<^verbatim>\<open>TimeoutError\<close> when the alarm goes off, and finishes its work all the same.
\<close>

definition returns_after :: "nat \<Rightarrow> pyval \<Rightarrow> behaviour" where
  "returns_after t v = \<lparr> undisturbed = Finishes t (Returns v), interrupted = Propagates \<rparr>"

definition raises_after :: "nat \<Rightarrow> error \<Rightarrow> behaviour" where
  "raises_after t e = \<lparr> undisturbed = Finishes t (Raises e), interrupted = Propagates \<rparr>"

definition never_returns :: behaviour where
  "never_returns = \<lparr> undisturbed = Never, interrupted = Propagates \<rparr>"

definition swallows_alarm :: "nat \<Rightarrow> pyval \<Rightarrow> behaviour" where
  "swallows_alarm t v =
     \<lparr> undisturbed = Finishes t (Returns v),
       interrupted = Continues (Finishes (t - alarm_seconds * 1000) (Returns v)) \<rparr>"

definition scenario_module :: "behaviour \<Rightarrow> behaviour \<Rightarrow> py_module" where
  "scenario_module backup dlq =
     (\<lambda>n. if n = ''checkBackup'' then Some (\<lambda>p s c. backup)
          else if n = ''checkDLQ'' then Some (\<lambda>p s c. dlq)
          else None)"

definition scenario_credentials :: credentials where
  "scenario_credentials =
     \<lparr> aws_access_key_id = ''AKIA'', aws_secret_access_key = ''secret'', aws_session_token = ''token'' \<rparr>"

definition scenario_services ::
  "challenge_config option \<Rightarrow> error + string \<Rightarrow> py_module \<Rightarrow> error + credentials \<Rightarrow> error option
   \<Rightarrow> services" where
  "scenario_services registered bundle loaded creds stored =
     \<lparr> get_item = (\<lambda>table key. if key = ''demo'' then Inr registered else Inr None),
       get_object = (\<lambda>bucket key. bundle),
       exec_module = (\<lambda>code. (loaded, None)),
       assume_role = (\<lambda>arn external_id. creds),
       put_item = (\<lambda>table it. (20, stored)),
       put_metric_data = (\<lambda>names. None),
       time_time = 1700000000200 \<rparr>"

definition scenario_environ :: environ where
  "scenario_environ =
     \<lparr> CHALLENGE_REGISTRY_TABLE = None, ASSESSMENT_RESULTS_TABLE = None, TEAM_ACCOUNT_MAPPING = [],
       DEFAULT_TEAM_ACCOUNT_ID = None, ASSESSMENT_ENGINE_EXTERNAL_ID = None \<rparr>"

definition scenario_event :: event where
  "scenario_event =
     \<lparr> ev_participantId = Some ''alice'', ev_challengeId = Some ''demo'', ev_teamId = None \<rparr>"

definition initial_state :: engine_state where
  "initial_state = \<lparr> calls = [], sys_modules = (\<lambda>n. None), written = [] \<rparr>"

text \<open>The two answers of the scenario's check functions, each after a second.\<close>

definition returns_implemented :: "pyval \<Rightarrow> behaviour" where
  "returns_implemented v = returns_after 1000 (PDict [(''implemented'', v)])"

text \<open>The state of the scenario once the role is assumed, for a loaded module \<open>m\<close>.\<close>

definition scenario_prepared :: "py_module \<Rightarrow> engine_state \<Rightarrow> engine_state" where
  "scenario_prepared m st =
     called (AssumeRole ''arn:aws:iam::123456789012:role/AssessmentEngineAccessRole'' ''ctf-assessment-engine'')
       ((called (GetObject ''ctf-challenges'' ''demo/check-functions.py'')
           (called (GetItem ''ctf-challenge-registry'' ''demo'') st))
        \<lparr> sys_modules := (sys_modules st)(''check_functions_1700000000'' \<mapsto> m) \<rparr>)"

text \<open>What the scenario of the specification evaluates to, and its services.\<close>

definition scenario_results :: "outcome list" where
  "scenario_results =
     [\<lparr> criterionId = Some ''pitr'', name = Some ''Point-in-time recovery'', points = 10,
        maxPoints = 10, implemented = PBool True, details = Some (PDict []), error = None \<rparr>,
      \<lparr> criterionId = Some ''dlq'', name = Some ''Dead-letter queue'', points = 0,
        maxPoints = 10, implemented = PBool False, details = Some (PDict []), error = None \<rparr>]"

definition scenario_passing_services :: services where
  "scenario_passing_services =
     scenario_services (Some (scenario_config (Some (PStr ''true'')) [])) (Inr ''code'')
       (scenario_module (returns_implemented (PBool True)) (returns_implemented (PBool False)))
       (Inr scenario_credentials) None"

text \<open>A module whose \<^verbatim>\<open>checkBackup\<close> raises and that has no \<^verbatim>\<open>checkDLQ\<close>.\<close>

definition scenario_failing_module :: py_module where
  "scenario_failing_module =
     (\<lambda>n. if n = ''checkBackup'' then Some (\<lambda>p s c. raises_after 500 (Exception ''boom'')) else None)"

text \<open>The scenario with a results table that rejects the write.\<close>

definition scenario_store_failing_services :: services where
  "scenario_store_failing_services =
     scenario_services (Some (scenario_config (Some (PStr ''true'')) [])) (Inr ''code'')
       (scenario_module (returns_implemented (PBool True)) (returns_implemented (PBool False)))
       (Inr scenario_credentials) (Some (ClientError ''ProvisionedThroughputExceededException''))"

text \<open>
  Modules whose \<^verbatim>\<open>checkDLQ\<close> comes back 100 milliseconds before the alarm is due, raising
  in the one and returning in the other, and a module whose \<^verbatim>\<open>checkDLQ\<close> calls
  \<^verbatim>\<open>sys.exit(1)\<close>; and the scenario with a results table that takes 250 milliseconds to
  answer.
\<close>

definition scenario_late_raise_module :: py_module where
  "scenario_late_raise_module =
     scenario_module (returns_implemented (PBool True)) (raises_after 29900 (Exception ''boom''))"

definition scenario_late_return_module :: py_module where
  "scenario_late_return_module =
     scenario_module (returns_implemented (PBool True))
       (returns_after 29900 (PDict [(''implemented'', PBool False)]))"

definition scenario_exiting_module :: py_module where
  "scenario_exiting_module =
     scenario_module (returns_implemented (PBool True)) (raises_after 500 (SystemExit ''1''))"

definition scenario_slow_store_services :: "py_module \<Rightarrow> services" where
  "scenario_slow_store_services m =
     (scenario_services (Some (scenario_config (Some (PStr ''true'')) [])) (Inr ''code'') m
        (Inr scenario_credentials) None)
     \<lparr> put_item := (\<lambda>table it. (250, None)) \<rparr>"

text \<open>
  The event and the mocked services of the trigger's own test (``should process scheduled
  event and trigger assessments''): the query answers two participants, every invocation is
  accepted.
\<close>

definition test_scheduled_event :: trigger_event where
  "test_scheduled_event =
     \<lparr> source = Some ''aws.events'', detail_type = Some ''Scheduled Event'', httpMethod = None,
       path = None, detail_stackId = None, pathParameters_participantId = None,
       event_participantId = None \<rparr>"

definition test_aws :: "string list \<Rightarrow> aws" where
  "test_aws items =
     \<lparr> dynamoDB_query = Inr items, listStacks = Inr [], lambda_invoke = (\<lambda>p. Inr None) \<rparr>"

section \<open>Facts about the evaluation loop\<close>

lemma check_criterion_fields:
  "check_criterion pid sn m cr p c = Some (p', Inr r) \<Longrightarrow>
     criterionId r = criterion_id c \<and> name r = criterion_name c \<and> maxPoints r = points_of c \<and>
     points r = (if truthy (implemented r) then points_of c else 0)"
  by (auto simp: check_criterion_def split: option.splits sum.splits prod.splits if_splits)

text \<open>The outcome of a criterion does not depend on the alarm pending before it.\<close>

lemma check_criterion_any_alarm:
  "check_criterion pid sn m cr p c = Some (p', Inr r) \<Longrightarrow>
     \<exists>q'. check_criterion pid sn m cr q c = Some (q', Inr r)"
  by (auto simp: check_criterion_def split: option.splits sum.splits prod.splits if_splits)

lemma checked_iff:
  "checked pid sn m cr c r \<longleftrightarrow> (\<exists>p p'. check_criterion pid sn m cr p c = Some (p', Inr r))"
proof
  assume "checked pid sn m cr c r"
  then show "\<exists>p p'. check_criterion pid sn m cr p c = Some (p', Inr r)"
    by (auto simp: checked_def split: option.splits prod.splits sum.splits)
next
  assume "\<exists>p p'. check_criterion pid sn m cr p c = Some (p', Inr r)"
  then obtain p p' where "check_criterion pid sn m cr p c = Some (p', Inr r)" by blast
  from check_criterion_any_alarm[OF this, of None]
  show "checked pid sn m cr c r" by (auto simp: checked_def)
qed

lemma assess_criteria_checked:
  "assess_criteria pid sn m cr cs acc p = Some (p', Inr rs) \<Longrightarrow>
     \<exists>os. rs = acc @ os \<and> list_all2 (checked pid sn m cr) cs os"
proof (induction cs arbitrary: acc p)
  case Nil
  then show ?case by auto
next
  case (Cons c cs)
  from Cons.prems obtain q r where
    c: "check_criterion pid sn m cr p c = Some (q, Inr r)" and
    rest: "assess_criteria pid sn m cr cs (acc @ [r]) q = Some (p', Inr rs)"
    by (auto split: option.splits sum.splits prod.splits)
  from Cons.IH[OF rest] obtain os where "rs = (acc @ [r]) @ os" "list_all2 (checked pid sn m cr) cs os"
    by blast
  moreover from c have "checked pid sn m cr c r" by (auto simp: checked_iff)
  ultimately show ?case by (intro exI[of _ "r # os"]) simp
qed

lemma run_assessment_checked:
  "run_assessment pid cfg m cr = Some (p', Inr rs) \<Longrightarrow>
     list_all2 (checked pid (stack_name_of cfg pid) m cr) (criteria_of cfg) rs"
  by (auto simp: run_assessment_def dest: assess_criteria_checked)

lemma checked_fields:
  "checked pid sn m cr c r \<Longrightarrow>
     criterionId r = criterion_id c \<and> name r = criterion_name c \<and> maxPoints r = points_of c \<and>
     points r = (if truthy (implemented r) then points_of c else 0)"
  unfolding checked_iff using check_criterion_fields by blast

lemma score_from_checked:
  "list_all2 (checked pid sn m cr) cs rs \<Longrightarrow>
     sum_list (map points rs) =
       sum_list (map (points_of \<circ> fst) (filter (\<lambda>(c, r). truthy (implemented r)) (zip cs rs)))"
  by (induction cs rs rule: list_all2_induct) (auto dest: checked_fields)

lemma score_le_max_checked:
  "list_all2 (checked pid sn m cr) cs rs \<Longrightarrow>
   \<forall>c \<in> set cs. 0 \<le> points_of c \<Longrightarrow>
     sum_list (map points rs) \<le> sum_list (map points_of cs)"
proof (induction cs rs rule: list_all2_induct)
  case Nil
  show ?case by simp
next
  case (Cons c cs r rs)
  from Cons.hyps(1) have "points r \<le> points_of c"
    using Cons.prems by (auto dest!: checked_fields split: if_splits)
  with Cons show ?case by simp
qed

lemma run_assessment_nth:
  assumes "run_assessment pid cfg m cr = Some (p', Inr rs)" and "i < length (criteria_of cfg)"
  shows "\<exists>q'. check_criterion pid (stack_name_of cfg pid) m cr q (criteria_of cfg ! i) = Some (q', Inr (rs ! i))"
proof -
  from run_assessment_checked[OF assms(1)] assms(2)
  have "checked pid (stack_name_of cfg pid) m cr (criteria_of cfg ! i) (rs ! i)"
    by (rule list_all2_nthD)
  then show ?thesis
    unfolding checked_iff using check_criterion_any_alarm by blast
qed

lemma run_assessment_length:
  "run_assessment pid cfg m cr = Some (p', Inr rs) \<Longrightarrow> length rs = length (criteria_of cfg)"
  by (auto dest!: run_assessment_checked dest: list_all2_lengthD)

section \<open>Facts about the handler\<close>

lemma load_challenge_config_Inr:
  "load_challenge_config sv env cid st = (st1, Inr cfg) \<longleftrightarrow>
     get_item sv (registry_table env) cid = Inr (Some cfg) \<and>
     (active cfg = None \<or> active cfg = Some (PStr ''true'')) \<and>
     st1 = called (GetItem (registry_table env) cid) st"
  by (auto simp: load_challenge_config_def Let_def split: sum.splits option.splits)

lemma assess_and_store_Inr:
  "assess_and_store sv env pid cid tid cfg m cr st = Some (st', Inr r) \<Longrightarrow>
     (\<exists>p. run_assessment pid cfg m cr = Some (p, Inr (results r))) \<and>
     score r = calculate_score (results r) \<and> maxScore r = calculate_max_score cfg \<and>
     passed r = (score r \<ge> passing_score cfg) \<and>
     participantId r = pid \<and> challengeId r = cid \<and> teamId r = tid"
  by (auto simp: assess_and_store_def Let_def split: sum.splits prod.splits option.splits)

lemma prepare_run_Inr:
  assumes "prepare_run sv env ev st = (st3, Inr ctx)"
  shows "ev_challengeId ev = Some (ctx_challenge_id ctx) \<and>
         ev_participantId ev = Some (ctx_participant_id ctx) \<and>
         (\<exists>st1. load_challenge_config sv env (ctx_challenge_id ctx) st = (st1, Inr (ctx_challenge_config ctx)))"
proof -
  from assms obtain pid cid where ids: "ev_participantId ev = Some pid" "ev_challengeId ev = Some cid"
    by (cases "ev_participantId ev"; cases "ev_challengeId ev")
       (auto simp: prepare_run_def Let_def)
  from assms ids show ?thesis
    apply (simp add: prepare_run_def Let_def split: if_splits)
    apply (cases "load_challenge_config sv env cid st")
    apply (auto split: sum.splits option.splits prod.splits)
    done
qed

lemma lambda_handler_Inr:
  "lambda_handler sv env ev st = Some (st', Inr r) \<longleftrightarrow> lambda_handler_try sv env ev st = Some (st', Inr r)"
  by (auto simp: lambda_handler_def split: prod.splits sum.splits option.splits if_splits)

lemma lambda_handler_try_Inr:
  assumes "lambda_handler_try sv env ev st = Some (st', Inr r)"
  shows "\<exists>st3 ctx. prepare_run sv env ev st = (st3, Inr ctx) \<and>
           assess_and_store sv env (ctx_participant_id ctx) (ctx_challenge_id ctx) (ctx_team_id ctx)
             (ctx_challenge_config ctx) (ctx_check_functions ctx) (ctx_assumed_credentials ctx) st3
           = Some (st', Inr r)"
  using assms by (auto simp: lambda_handler_try_def split: prod.splits sum.splits)

lemma completed_run:
  assumes "lambda_handler sv env ev st = Some (st', Inr r)"
      and "ev_challengeId ev = Some cid"
      and "get_item sv (registry_table env) cid = Inr (Some cfg)"
  shows "\<exists>m cr p. run_assessment (participantId r) cfg m cr = Some (p, Inr (results r)) \<and>
           score r = calculate_score (results r) \<and> maxScore r = calculate_max_score cfg"
proof -
  from assms(1) have "lambda_handler_try sv env ev st = Some (st', Inr r)"
    by (simp add: lambda_handler_Inr)
  from lambda_handler_try_Inr[OF this] obtain st3 ctx where
    p: "prepare_run sv env ev st = (st3, Inr ctx)" and
    a: "assess_and_store sv env (ctx_participant_id ctx) (ctx_challenge_id ctx) (ctx_team_id ctx)
             (ctx_challenge_config ctx) (ctx_check_functions ctx) (ctx_assumed_credentials ctx) st3
           = Some (st', Inr r)"
    by auto
  from prepare_run_Inr[OF p] assms(2) obtain st1 where
    "load_challenge_config sv env cid st = (st1, Inr (ctx_challenge_config ctx))" by auto
  with assms(3) have "ctx_challenge_config ctx = cfg" by (simp add: load_challenge_config_Inr)
  with assess_and_store_Inr[OF a] show ?thesis by auto
qed

section \<open>The scenario, step by step\<close>

lemma scenario_load_challenge_config:
  "load_challenge_config (scenario_services registered bundle m creds stored) scenario_environ ''demo'' st =
     (called (GetItem ''ctf-challenge-registry'' ''demo'') st,
      case registered of
        None \<Rightarrow> Inl (Exception ''Challenge not found: demo'')
      | Some cfg \<Rightarrow>
          if active cfg = None \<or> active cfg = Some (PStr ''true'') then Inr cfg
          else Inl (Exception ''Challenge is not active: demo''))"
  by (auto simp: load_challenge_config_def scenario_services_def registry_table_def
      scenario_environ_def split: option.splits)

lemma scenario_load_check_functions:
  "load_check_functions_from_s3 (scenario_services registered bundle m creds stored)
       ''s3://ctf-challenges/demo/'' ''check-functions.py'' st =
     (case bundle of
        Inl e \<Rightarrow> (called (GetObject ''ctf-challenges'' ''demo/check-functions.py'') st, Inl (load_failure e))
      | Inr code \<Rightarrow>
          ((called (GetObject ''ctf-challenges'' ''demo/check-functions.py'') st)
             \<lparr> sys_modules := (sys_modules st)(''check_functions_1700000000'' \<mapsto> m) \<rparr>, Inr m))"
  by (simp add: load_check_functions_from_s3_def scenario_services_def split_first_slash_def
      module_name_of_def digit_char_def called_def split: sum.splits)

lemma scenario_assume_role:
  "assume_assessment_role (scenario_services registered bundle m creds stored) scenario_environ
       (identify_team_account scenario_environ ''default-team'') st =
     (called (AssumeRole ''arn:aws:iam::123456789012:role/AssessmentEngineAccessRole'' ''ctf-assessment-engine'') st,
      case creds of Inr c \<Rightarrow> Inr c | Inl e \<Rightarrow> Inl (role_failure e))"
  by (simp add: assume_assessment_role_def scenario_services_def identify_team_account_def
      scenario_environ_def split: sum.splits)

lemma scenario_event_fields:
  "ev_participantId scenario_event = Some ''alice''"
  "ev_challengeId scenario_event = Some ''demo''"
  "team_of scenario_event = ''default-team''"
  by (simp_all add: scenario_event_def team_of_def)

lemma scenario_config_fields:
  "active (scenario_config act others) = act"
  "s3Location (scenario_config act others) = Some ''s3://ctf-challenges/demo/''"
  "checkFunctionsFile (scenario_config act others) = Some ''check-functions.py''"
  "criteria_of (scenario_config act others) = scenario_criteria"
  "passing_score (scenario_config act others) = 15"
  "stack_name_of (scenario_config act others) pid = ''reliability-challenge-'' @ pid"
  by (simp_all add: scenario_config_def criteria_of_def passing_score_def stack_name_of_def)

lemma scenario_prepare_run:
  assumes "act = None \<or> act = Some (PStr ''true'')"
  shows "prepare_run (scenario_services (Some (scenario_config act others)) (Inr code) m (Inr cr) stored)
           scenario_environ scenario_event st =
         (scenario_prepared m st,
          Inr \<lparr> ctx_participant_id = ''alice'', ctx_challenge_id = ''demo'', ctx_team_id = ''default-team'',
                ctx_challenge_config = scenario_config act others, ctx_check_functions = m,
                ctx_assumed_credentials = cr \<rparr>)"
  unfolding prepare_run_def scenario_event_fields
  using assms
  by (simp add: scenario_load_challenge_config scenario_config_fields scenario_load_check_functions
      scenario_assume_role scenario_prepared_def scenario_event_fields called_def Let_def)

lemma record_error_metric_eq:
  "record_error_metric sv st = called (PutMetricData [''AssessmentErrors'']) st"
  by (simp add: record_error_metric_def Let_def split: option.splits)

lemma record_assessment_metrics_eq:
  "record_assessment_metrics sv st =
     called (PutMetricData [''AssessmentScore'', ''AssessmentsPassed'', ''AssessmentDuration'']) st"
  by (simp add: record_assessment_metrics_def Let_def split: option.splits)

text \<open>The rest of the handler, once the evaluation has returned its list.\<close>

lemma assess_and_store_eval:
  assumes "run_assessment pid cfg m cr = Some (pending, Inr rs)"
  shows "assess_and_store sv env pid cid tid cfg m cr st =
     (let sc = calculate_score rs; ok = (sc \<ge> passing_score cfg);
          it = result_item pid cid tid rs sc ok;
          st1 = called (PutItem (results_table env) it) st
      in case put_item sv (results_table env) it of
           (elapsed_ms, raised) \<Rightarrow>
             if alarm_fires pending elapsed_ms then Some (st1, Inl timeout_error)
             else (case raised of
                     Some e \<Rightarrow> Some (st1, Inl (store_failure e))
                   | None \<Rightarrow>
                       Some (record_assessment_metrics sv (st1\<lparr> written := written st1 @ [it] \<rparr>),
                         Inr \<lparr> participantId = pid, challengeId = cid, teamId = tid, score = sc,
                               maxScore = calculate_max_score cfg, passed = ok, results = rs,
                               feedback = generate_feedback rs sc ok \<rparr>)))"
  using assms
  by (simp add: assess_and_store_def store_assessment_results_def Let_def
      split: option.splits prod.splits)

lemma lambda_handler_eval:
  assumes "prepare_run sv env ev st = (st3, Inr ctx)"
  shows "lambda_handler_try sv env ev st =
           assess_and_store sv env (ctx_participant_id ctx) (ctx_challenge_id ctx) (ctx_team_id ctx)
             (ctx_challenge_config ctx) (ctx_check_functions ctx) (ctx_assumed_credentials ctx) st3"
  using assms by (simp add: lambda_handler_try_def)

text \<open>What the engine sees of the scenario's check functions.\<close>

lemma invoke_returns_after:
  "t < 30000 \<Longrightarrow> invoke (returns_after t v) = Some (Some (30000 - t), Returns v)"
  by (simp add: invoke_def returns_after_def timed_out_def alarm_seconds_def)

lemma invoke_raises_after:
  "t < 30000 \<Longrightarrow> invoke (raises_after t e) = Some (Some (30000 - t), Raises e)"
  by (simp add: invoke_def raises_after_def timed_out_def alarm_seconds_def)

lemma invoke_late:
  "30000 \<le> t \<Longrightarrow> invoke (returns_after t v) = Some (None, Raises timeout_error)"
  "30000 \<le> t \<Longrightarrow> invoke (raises_after t e) = Some (None, Raises timeout_error)"
  "invoke never_returns = Some (None, Raises timeout_error)"
  "30000 \<le> t \<Longrightarrow> invoke (swallows_alarm t v) = Some (None, Returns v)"
  by (simp_all add: invoke_def returns_after_def raises_after_def never_returns_def swallows_alarm_def
        timed_out_def alarm_seconds_def)

lemma scenario_outcomes:
  "run_assessment ''alice'' (scenario_config act others)
       (scenario_module (returns_implemented (PBool True)) (returns_implemented (PBool False)))
       scenario_credentials = Some (None, Inr scenario_results)"
  by (simp add: run_assessment_def scenario_config_fields scenario_criteria_def scenario_results_def
        check_criterion_def scenario_module_def returns_implemented_def invoke_returns_after
        execute_check_function_def dict_get_def points_of_def)

lemma scenario_completes:
  "\<exists>st'. lambda_handler scenario_passing_services scenario_environ scenario_event initial_state =
     Some (st', Inr \<lparr> participantId = ''alice'', challengeId = ''demo'', teamId = ''default-team'',
                 score = 10, maxScore = 20, passed = False, results = scenario_results,
                 feedback = generate_feedback scenario_results 10 False \<rparr>)"
proof -
  let ?m = "scenario_module (returns_implemented (PBool True)) (returns_implemented (PBool False))"
  have p: "prepare_run scenario_passing_services scenario_environ scenario_event initial_state =
      (scenario_prepared ?m initial_state,
       Inr \<lparr> ctx_participant_id = ''alice'', ctx_challenge_id = ''demo'', ctx_team_id = ''default-team'',
             ctx_challenge_config = scenario_config (Some (PStr ''true'')) [], ctx_check_functions = ?m,
             ctx_assumed_credentials = scenario_credentials \<rparr>)"
    unfolding scenario_passing_services_def by (rule scenario_prepare_run) simp
  have put: "\<And>t i. put_item scenario_passing_services t i = (20, None)"
    by (simp add: scenario_passing_services_def scenario_services_def)
  have sc: "calculate_score scenario_results = 10"
    by (simp add: calculate_score_def scenario_results_def)
  have mx: "calculate_max_score (scenario_config (Some (PStr ''true'')) []) = 20"
    by (simp add: calculate_max_score_def scenario_config_fields scenario_criteria_def points_of_def)
  show ?thesis
    by (simp add: lambda_handler_def lambda_handler_eval[OF p] assess_and_store_eval[OF scenario_outcomes]
        put Let_def sc mx scenario_config_fields alarm_fires_def)
qed

section \<open>Outcomes of failed checks\<close>




section \<open>What a failed run leaves behind\<close>

lemma written_called [simp]: "written (called c st) = written st"
  by (simp add: called_def)

lemma sys_modules_called [simp]: "sys_modules (called c st) = sys_modules st"
  by (simp add: called_def)

lemma calls_called [simp]: "calls (called c st) = calls st @ [c]"
  by (simp add: called_def)

lemma load_challenge_config_state:
  "load_challenge_config sv env cid st = (st1, x) \<Longrightarrow> st1 = called (GetItem (registry_table env) cid) st"
  by (auto simp: load_challenge_config_def Let_def split: sum.splits option.splits if_splits)

lemma load_check_functions_written:
  "load_check_functions_from_s3 sv loc fname st = (st2, x) \<Longrightarrow> written st2 = written st"
  by (auto simp: load_check_functions_from_s3_def Let_def split: sum.splits option.splits prod.splits)

lemma assume_assessment_role_state:
  "assume_assessment_role sv env acct st = (st3, x) \<Longrightarrow> written st3 = written st"
  by (auto simp: assume_assessment_role_def Let_def split: sum.splits)

lemma prepare_run_ids:
  assumes "ev_participantId ev = Some pid" "pid \<noteq> []" "ev_challengeId ev = Some cid" "cid \<noteq> []"
  shows "prepare_run sv env ev st =
     (case load_challenge_config sv env cid st of
        (st1, Inl e) \<Rightarrow> (st1, Inl e)
      | (st1, Inr cfg) \<Rightarrow>
          (case s3Location cfg of
             None \<Rightarrow> (st1, Inl (KeyError ''s3Location''))
           | Some s3_location \<Rightarrow>
               (case checkFunctionsFile cfg of
                  None \<Rightarrow> (st1, Inl (KeyError ''checkFunctionsFile''))
                | Some check_functions_file \<Rightarrow>
                    (case load_check_functions_from_s3 sv s3_location check_functions_file st1 of
                       (st2, Inl e) \<Rightarrow> (st2, Inl e)
                     | (st2, Inr loaded) \<Rightarrow>
                         (case assume_assessment_role sv env
                                 (identify_team_account env (team_of ev)) st2 of
                            (st3, Inl e) \<Rightarrow> (st3, Inl e)
                          | (st3, Inr creds) \<Rightarrow>
                              (st3, Inr \<lparr> ctx_participant_id = pid, ctx_challenge_id = cid,
                                          ctx_team_id = team_of ev, ctx_challenge_config = cfg,
                                          ctx_check_functions = loaded,
                                          ctx_assumed_credentials = creds \<rparr>))))))"
  using assms by (simp add: prepare_run_def)

lemma lambda_handler_not_prepared:
  "prepare_run sv env ev st = (st', Inl e) \<Longrightarrow>
     lambda_handler sv env ev st =
       Some (if is_Exception e then called (PutMetricData [''AssessmentErrors'']) st' else st', Inl e)"
  by (simp add: lambda_handler_def lambda_handler_try_def record_error_metric_eq)

lemma scenario_ids:
  "ev_participantId scenario_event = Some ''alice''" "''alice'' \<noteq> []"
  "ev_challengeId scenario_event = Some ''demo''" "''demo'' \<noteq> []"
  by (simp_all add: scenario_event_def)

lemma written_initial_state: "written initial_state = []"
  by (simp add: initial_state_def)

lemma prepare_run_written:
  assumes "prepare_run sv env ev st = (st3, x)"
  shows "written st3 = written st"
proof (cases "(case ev_participantId ev of None \<Rightarrow> [] | Some p \<Rightarrow> p) = [] \<or>
              (case ev_challengeId ev of None \<Rightarrow> [] | Some c \<Rightarrow> c) = []")
  case True
  with assms show ?thesis by (auto simp: prepare_run_def Let_def)
next
  case False
  then obtain pid cid where ids:
    "ev_participantId ev = Some pid" "pid \<noteq> []" "ev_challengeId ev = Some cid" "cid \<noteq> []"
    by (cases "ev_participantId ev"; cases "ev_challengeId ev") auto
  from assms show ?thesis
    unfolding prepare_run_ids[OF ids]
    by (auto split: prod.splits sum.splits option.splits
        dest!: load_challenge_config_state load_check_functions_written assume_assessment_role_state)
qed

text \<open>
  A failure of one of the steps before the evaluation (a missing parameter, the registry,
  the bundle, the role) ends the run: the handler raises that error and nothing is written.
\<close>

lemma preparation_failure_ends_the_run:
  assumes "prepare_run sv env ev st = (st3, Inl e)"
  shows "\<exists>st'. lambda_handler sv env ev st = Some (st', Inl e) \<and> written st' = written st"
  using lambda_handler_not_prepared[OF assms] prepare_run_written[OF assms] by simp

text \<open>The run of the handler from the outcomes on, when the steps before have succeeded.\<close>

lemma lambda_handler_from_outcomes:
  assumes "prepare_run sv env ev st = (st3, Inr ctx)"
      and "run_assessment (ctx_participant_id ctx) (ctx_challenge_config ctx) (ctx_check_functions ctx)
             (ctx_assumed_credentials ctx) = Some (pending, Inr rs)"
      and "put_item sv (results_table env)
             (result_item (ctx_participant_id ctx) (ctx_challenge_id ctx) (ctx_team_id ctx) rs
                (calculate_score rs) (passing_score (ctx_challenge_config ctx) \<le> calculate_score rs))
           = (elapsed_ms, raised)"
  shows "lambda_handler sv env ev st =
     (let it = result_item (ctx_participant_id ctx) (ctx_challenge_id ctx) (ctx_team_id ctx) rs
                 (calculate_score rs) (passing_score (ctx_challenge_config ctx) \<le> calculate_score rs);
          st4 = called (PutItem (results_table env) it) st3
      in if alarm_fires pending elapsed_ms
         then Some (called (PutMetricData [''AssessmentErrors'']) st4, Inl timeout_error)
         else (case raised of
                 Some e \<Rightarrow>
                   Some (if is_Exception (store_failure e)
                         then called (PutMetricData [''AssessmentErrors'']) st4 else st4,
                         Inl (store_failure e))
               | None \<Rightarrow>
                   Some (called (PutMetricData [''AssessmentScore'', ''AssessmentsPassed'', ''AssessmentDuration''])
                           (st4\<lparr> written := written st4 @ [it] \<rparr>),
                     Inr \<lparr> participantId = ctx_participant_id ctx, challengeId = ctx_challenge_id ctx,
                           teamId = ctx_team_id ctx, score = calculate_score rs,
                           maxScore = calculate_max_score (ctx_challenge_config ctx),
                           passed = (passing_score (ctx_challenge_config ctx) \<le> calculate_score rs),
                           results = rs,
                           feedback = generate_feedback rs (calculate_score rs)
                                        (passing_score (ctx_challenge_config ctx) \<le> calculate_score rs) \<rparr>)))"
  using assms(3)
  by (simp add: lambda_handler_def lambda_handler_eval[OF assms(1)] assess_and_store_eval[OF assms(2)]
        Let_def record_error_metric_eq record_assessment_metrics_eq timeout_error_def
        split: option.splits)

section \<open>Runs with a slow results table\<close>

lemma steps_put_item:
  "load_challenge_config (sv\<lparr> put_item := p \<rparr>) = load_challenge_config sv"
  "load_check_functions_from_s3 (sv\<lparr> put_item := p \<rparr>) = load_check_functions_from_s3 sv"
  "assume_assessment_role (sv\<lparr> put_item := p \<rparr>) = assume_assessment_role sv"
  by (simp_all add: load_challenge_config_def load_check_functions_from_s3_def
        assume_assessment_role_def fun_eq_iff Let_def split: sum.splits prod.splits option.splits)

lemma prepare_run_put_item:
  "prepare_run (sv\<lparr> put_item := p \<rparr>) env ev st = prepare_run sv env ev st"
  by (simp add: prepare_run_def steps_put_item Let_def split: sum.splits prod.splits option.splits)

lemma scenario_slow_store_prepare_run:
  "prepare_run (scenario_slow_store_services m) scenario_environ scenario_event initial_state =
     (scenario_prepared m initial_state,
      Inr \<lparr> ctx_participant_id = ''alice'', ctx_challenge_id = ''demo'', ctx_team_id = ''default-team'',
            ctx_challenge_config = scenario_config (Some (PStr ''true'')) [], ctx_check_functions = m,
            ctx_assumed_credentials = scenario_credentials \<rparr>)"
  unfolding scenario_slow_store_services_def prepare_run_put_item
  by (rule scenario_prepare_run) simp

lemma scenario_late_raise_outcomes:
  "run_assessment ''alice'' (scenario_config act others) scenario_late_raise_module scenario_credentials =
     Some (Some 100,
       Inr [\<lparr> criterionId = Some ''pitr'', name = Some ''Point-in-time recovery'', points = 10,
              maxPoints = 10, implemented = PBool True, details = Some (PDict []), error = None \<rparr>,
            \<lparr> criterionId = Some ''dlq'', name = Some ''Dead-letter queue'', points = 0,
              maxPoints = 10, implemented = PBool False, details = None, error = Some ''boom'' \<rparr>])"
  by (simp add: run_assessment_def scenario_config_fields scenario_criteria_def
        check_criterion_def scenario_late_raise_module_def scenario_module_def returns_implemented_def
        invoke_returns_after invoke_raises_after execute_check_function_def dict_get_def points_of_def)

lemma scenario_late_return_outcomes:
  "run_assessment ''alice'' (scenario_config act others) scenario_late_return_module scenario_credentials =
     Some (None, Inr scenario_results)"
  by (simp add: run_assessment_def scenario_config_fields scenario_criteria_def scenario_results_def
        check_criterion_def scenario_late_return_module_def scenario_module_def returns_implemented_def
        invoke_returns_after execute_check_function_def dict_get_def points_of_def)

lemma scenario_exiting_outcomes:
  "run_assessment ''alice'' (scenario_config act others) scenario_exiting_module scenario_credentials =
     Some (Some 29500, Inl (SystemExit ''1''))"
  by (simp add: run_assessment_def scenario_config_fields scenario_criteria_def
        check_criterion_def scenario_exiting_module_def scenario_module_def returns_implemented_def
        invoke_returns_after invoke_raises_after execute_check_function_def dict_get_def points_of_def)

lemma scenario_slow_store_put_item:
  "put_item (scenario_slow_store_services m) t i = (250, None)"
  by (simp add: scenario_slow_store_services_def)

lemma scenario_results_score: "calculate_score scenario_results = 10"
  by (simp add: calculate_score_def scenario_results_def)

section \<open>Runs with a failing results table, and checks that return\<close>

lemma scenario_store_failing_prepare_run:
  "prepare_run scenario_store_failing_services scenario_environ scenario_event initial_state =
     (scenario_prepared
        (scenario_module (returns_implemented (PBool True)) (returns_implemented (PBool False)))
        initial_state,
      Inr \<lparr> ctx_participant_id = ''alice'', ctx_challenge_id = ''demo'', ctx_team_id = ''default-team'',
            ctx_challenge_config = scenario_config (Some (PStr ''true'')) [],
            ctx_check_functions =
              scenario_module (returns_implemented (PBool True)) (returns_implemented (PBool False)),
            ctx_assumed_credentials = scenario_credentials \<rparr>)"
  unfolding scenario_store_failing_services_def by (rule scenario_prepare_run) simp

lemma scenario_store_failing_put_item:
  "put_item scenario_store_failing_services t i
     = (20, Some (ClientError ''ProvisionedThroughputExceededException''))"
  by (simp add: scenario_store_failing_services_def scenario_services_def)

lemma scenario_results_table: "results_table scenario_environ = ''ctf-assessment-results''"
  by (simp add: results_table_def scenario_environ_def)

lemma scenario_store_failing_run:
  "lambda_handler scenario_store_failing_services scenario_environ scenario_event initial_state =
     Some (called (PutMetricData [''AssessmentErrors''])
        (called (PutItem ''ctf-assessment-results''
                   (result_item ''alice'' ''demo'' ''default-team'' scenario_results 10 False))
           (scenario_prepared
              (scenario_module (returns_implemented (PBool True)) (returns_implemented (PBool False)))
              initial_state)),
      Inl (Exception ''Failed to store assessment results: ProvisionedThroughputExceededException''))"
  by (simp add: lambda_handler_from_outcomes[OF scenario_store_failing_prepare_run _
          scenario_store_failing_put_item]
        scenario_outcomes alarm_fires_def Let_def scenario_results_score scenario_config_fields
        store_failure_def scenario_results_table)

lemma invoke_in_time:
  "undisturbed b = Finishes t (Returns v) \<Longrightarrow> \<not> timed_out t \<Longrightarrow>
     invoke b = Some (Some (alarm_seconds * 1000 - t), Returns v)"
  by (simp add: invoke_def)

lemma scenario_first_criterion:
  "checkFunction (scenario_criteria ! 0) = Some ''checkBackup''"
  "points_of (scenario_criteria ! 0) = 10"
  by (simp_all add: scenario_criteria_def points_of_def)

section \<open>Facts about the deadline\<close>

lemma validate_result_message:
  "validate_result v = Inl e \<Longrightarrow> str_of e \<noteq> ''Check function execution timed out''"
  by (cases v) (auto split: if_splits)

lemma invoke_timed_out:
  "exceeds_deadline 30 b \<Longrightarrow> lets_timeout_propagate b \<Longrightarrow>
     invoke b = Some (None, Raises timeout_error)"
  by (auto simp: exceeds_deadline_def lets_timeout_propagate_def invoke_def timed_out_def
        alarm_seconds_def split: course.splits reaction.splits)

lemma check_criterion_timed_out:
  assumes "checkFunction c = Some f" and "m f = Some g"
      and "exceeds_deadline 30 (g pid sn cr)" and "lets_timeout_propagate (g pid sn cr)"
  shows "check_criterion pid sn m cr p c = Some (None, Inr (failure_outcome c ''Check function execution timed out''))"
  using assms(1,2) invoke_timed_out[OF assms(3,4)]
  by (simp add: check_criterion_def execute_check_function_def timeout_error_def failure_outcome_def)

lemma check_criterion_in_time:
  assumes "checkFunction c = Some f" and "m f = Some g"
      and "undisturbed (g pid sn cr) = Finishes t (Returns v) \<and> t < 30 * 1000"
  shows "\<exists>r. check_criterion pid sn m cr p c = Some (None, Inr r) \<and>
             error r \<noteq> Some ''Check function execution timed out''"
proof -
  from assms(3) have "\<not> timed_out t" and u: "undisturbed (g pid sn cr) = Finishes t (Returns v)"
    by (simp_all add: timed_out_def alarm_seconds_def)
  from invoke_in_time[OF u this(1)]
  have ex: "execute_check_function g pid sn cr = Some (None, validate_result v)"
    by (simp add: execute_check_function_def)
  show ?thesis
  proof (cases "validate_result v")
    case (Inl e)
    have "is_Exception e" using Inl by (cases v) (auto split: if_splits)
    with Inl ex assms(1,2) validate_result_message[OF Inl] show ?thesis
      by (simp add: check_criterion_def)
  next
    case (Inr d)
    with ex assms(1,2) show ?thesis
      by (simp add: check_criterion_def)
  qed
qed

lemma scenario_slow_outcomes:
  "run_assessment ''alice'' (scenario_config act others)
       (scenario_module (returns_after 45000 (PDict [(''implemented'', PBool True)]))
          (returns_implemented (PBool True)))
       scenario_credentials =
     Some (None,
       Inr [\<lparr> criterionId = Some ''pitr'', name = Some ''Point-in-time recovery'', points = 0,
              maxPoints = 10, implemented = PBool False, details = None,
              error = Some ''Check function execution timed out'' \<rparr>,
            \<lparr> criterionId = Some ''dlq'', name = Some ''Dead-letter queue'', points = 10,
              maxPoints = 10, implemented = PBool True, details = Some (PDict []), error = None \<rparr>])"
  by (simp add: run_assessment_def scenario_config_fields scenario_criteria_def
        check_criterion_def scenario_module_def returns_implemented_def invoke_returns_after
        invoke_late timeout_error_def execute_check_function_def dict_get_def points_of_def)

lemma scenario_catching_outcomes:
  "run_assessment ''alice'' (scenario_config act others)
       (scenario_module (swallows_alarm 45000 (PDict [(''implemented'', PBool True)]))
          (returns_implemented (PBool True)))
       scenario_credentials =
     Some (None,
       Inr [\<lparr> criterionId = Some ''pitr'', name = Some ''Point-in-time recovery'', points = 10,
              maxPoints = 10, implemented = PBool True, details = Some (PDict []), error = None \<rparr>,
            \<lparr> criterionId = Some ''dlq'', name = Some ''Dead-letter queue'', points = 10,
              maxPoints = 10, implemented = PBool True, details = Some (PDict []), error = None \<rparr>])"
  by (simp add: run_assessment_def scenario_config_fields scenario_criteria_def
        check_criterion_def scenario_module_def returns_implemented_def invoke_returns_after
        invoke_late execute_check_function_def dict_get_def points_of_def)

section \<open>Facts about the trigger\<close>

text \<open>The lists whose head the code takes are never empty.\<close>

lemma split_on_not_empty: "split_on d s \<noteq> []"
  by (induction s) (auto split: list.splits)

lemma split_first_slash_not_empty: "split_first_slash s \<noteq> []"
  by (simp add: split_first_slash_def)

lemma distinct_set_add: "distinct seen \<Longrightarrow> distinct (set_add seen x)"
  by (simp add: set_add_def)

lemma distinct_foldl_set_add: "distinct seen \<Longrightarrow> distinct (foldl set_add seen xs)"
  by (induction xs arbitrary: seen) (simp_all add: distinct_set_add)

lemma distinct_js_Set: "distinct (js_Set xs)"
  by (simp add: js_Set_def distinct_foldl_set_add)

lemma distinct_getActiveParticipants: "distinct (getActiveParticipants svc)"
  by (simp add: getActiveParticipants_def getParticipantsFromStacks_def distinct_js_Set
        split: sum.splits)

lemma distinct_extractParticipantIds: "distinct (extractParticipantIds e src svc)"
  by (simp add: extractParticipantIds_def distinct_getActiveParticipants Let_def
        split: option.splits)

lemma invoked_handler:
  "invoked (handler svc e) = extractParticipantIds e (identifyEventSource e) svc"
  by (simp add: handler_def Let_def)

lemma js_Set_aba: "a \<noteq> b \<Longrightarrow> js_Set [a, b, a] = [a, b]"
  by (simp add: js_Set_def set_add_def)

section \<open>Absorbed failures\<close>

lemma check_criterion_missing:
  "checkFunction c = Some f \<Longrightarrow> m f = None \<Longrightarrow>
     check_criterion pid sn m cr p c =
       Some (p, Inr (failure_outcome c (''Check function not found: '' @ f)))"
  by (simp add: check_criterion_def failure_outcome_def)

lemma check_criterion_absorbs:
  "checkFunction c = Some f \<Longrightarrow> m f = Some g \<Longrightarrow>
   invoke (g pid sn cr) = Some (q, Raises e) \<Longrightarrow> is_Exception e \<Longrightarrow>
     check_criterion pid sn m cr p c = Some (q, Inr (failure_outcome c (str_of e)))"
  by (simp add: check_criterion_def execute_check_function_def failure_outcome_def)

section \<open>The claims\<close>

text \<open>
  C1. For every completed run (the handler returned a response \<open>r\<close> for the registry item
  \<open>cfg\<close>), the response has one outcome per criterion, its \<open>score\<close> is the sum of the point
  values of exactly those criteria whose outcome is implemented (its \<open>implemented\<close> value is
  true in Python's sense), its \<open>maxScore\<close> is the sum of all criteria's point values, and
  the score does not exceed the maximum score. The point value of a criterion is a
  non-negative integer in the data model of the specification; the registry stores a
  number, so the last part is stated for the definitions that respect the data model.
\<close>

theorem score_sums_implemented_points:
  assumes "lambda_handler sv env ev st = Some (st', Inr r)"
      and "ev_challengeId ev = Some cid"
      and "get_item sv (registry_table env) cid = Inr (Some cfg)"
  shows "length (results r) = length (criteria_of cfg) \<and>
         score r = sum_list (map (points_of \<circ> fst)
                      (filter (\<lambda>(c, out). truthy (implemented out)) (zip (criteria_of cfg) (results r)))) \<and>
         maxScore r = sum_list (map points_of (criteria_of cfg)) \<and>
         ((\<forall>c \<in> set (criteria_of cfg). 0 \<le> points_of c) \<longrightarrow> score r \<le> maxScore r)"
proof -
  from completed_run[OF assms] obtain m cr p where
    run: "run_assessment (participantId r) cfg m cr = Some (p, Inr (results r))" and
    sc: "score r = calculate_score (results r)" and mx: "maxScore r = calculate_max_score cfg"
    by auto
  from run have all2:
    "list_all2 (checked (participantId r) (stack_name_of cfg (participantId r)) m cr)
       (criteria_of cfg) (results r)"
    by (rule run_assessment_checked)
  have len: "length (results r) = length (criteria_of cfg)"
    using all2 by (simp add: list_all2_lengthD)
  have s: "score r = sum_list (map (points_of \<circ> fst)
            (filter (\<lambda>(c, out). truthy (implemented out)) (zip (criteria_of cfg) (results r))))"
    using score_from_checked[OF all2] sc by (simp add: calculate_score_def)
  have m: "maxScore r = sum_list (map points_of (criteria_of cfg))"
    using mx by (simp add: calculate_max_score_def)
  have le: "(\<forall>c \<in> set (criteria_of cfg). 0 \<le> points_of c) \<longrightarrow> score r \<le> maxScore r"
    using score_le_max_checked[OF all2] sc mx by (simp add: calculate_score_def calculate_max_score_def)
  from len s m le show ?thesis by blast
qed

text \<open>
  The scenario of the specification is such a run: \<^verbatim>\<open>checkBackup\<close> is implemented, \<^verbatim>\<open>checkDLQ\<close> is
  not, and the response scores 10 of 20.
\<close>

theorem score_sums_implemented_points_witness:
  "\<exists>st' r. lambda_handler scenario_passing_services scenario_environ scenario_event initial_state
             = Some (st', Inr r) \<and>
           length (results r) = 2 \<and> score r = 10 \<and> maxScore r = 20 \<and> score r \<le> maxScore r"
proof -
  from scenario_completes obtain st' r where
    run: "lambda_handler scenario_passing_services scenario_environ scenario_event initial_state = Some (st', Inr r)"
    and res: "results r = scenario_results"
    by force
  have reg: "get_item scenario_passing_services (registry_table scenario_environ) ''demo''
               = Inr (Some (scenario_config (Some (PStr ''true'')) []))"
    by (simp add: scenario_passing_services_def scenario_services_def)
  have nonneg: "\<forall>c \<in> set (criteria_of (scenario_config (Some (PStr ''true'')) [])). 0 \<le> points_of c"
    by (simp add: scenario_config_fields scenario_criteria_def points_of_def)
  from score_sums_implemented_points[OF run scenario_event_fields(2) reg] nonneg
  have "length (results r) = 2 \<and> score r = 10 \<and> maxScore r = 20 \<and> score r \<le> maxScore r"
    by (simp add: scenario_config_fields scenario_criteria_def points_of_def res scenario_results_def)
  with run show ?thesis by blast
qed



text \<open>
  C3, as stated, fails: the failure of a criterion's routine can make the run fail. The loop
  absorbs what \<^verbatim>\<open>except Exception\<close> catches, but \<^verbatim>\<open>execute_check_function\<close> cancels its
  alarm only after a call that returned. In the scenario \<^verbatim>\<open>checkDLQ\<close>, the last routine,
  raises after 29.9 seconds: its failure is absorbed as an outcome, the alarm stays armed
  with 100 milliseconds to go, and it goes off while the results table, which takes 250
  milliseconds, is being written: the run fails with the alarm's \<^verbatim>\<open>TimeoutError\<close> and
  nothing is stored. (A routine that returns at that moment has its alarm cancelled, and the
  same run completes and stores its item.) And a routine that raises \<^verbatim>\<open>SystemExit\<close>, which
  does not derive from \<^verbatim>\<open>Exception\<close>, is not absorbed at all: the exception leaves the
  loop and the handler.
\<close>

theorem failing_routine_fails_the_run_counterexample:
  "(\<exists>st'. lambda_handler (scenario_slow_store_services scenario_late_raise_module)
             scenario_environ scenario_event initial_state
           = Some (st', Inl (TimeoutError ''Check function execution timed out'')) \<and>
          written st' = []) \<and>
   (\<exists>st' r. lambda_handler (scenario_slow_store_services scenario_late_return_module)
               scenario_environ scenario_event initial_state
             = Some (st', Inr r) \<and> results r = scenario_results \<and> length (written st') = 1) \<and>
   (\<exists>st'. lambda_handler (scenario_slow_store_services scenario_exiting_module)
             scenario_environ scenario_event initial_state
           = Some (st', Inl (SystemExit ''1'')) \<and>
          written st' = [])"
proof (intro conjI)
  show "\<exists>st'. lambda_handler (scenario_slow_store_services scenario_late_raise_module)
             scenario_environ scenario_event initial_state
           = Some (st', Inl (TimeoutError ''Check function execution timed out'')) \<and>
          written st' = []"
    by (simp add: lambda_handler_from_outcomes[OF scenario_slow_store_prepare_run _ scenario_slow_store_put_item]
          scenario_late_raise_outcomes alarm_fires_def timeout_error_def Let_def
          scenario_prepared_def written_initial_state)
next
  show "\<exists>st' r. lambda_handler (scenario_slow_store_services scenario_late_return_module)
               scenario_environ scenario_event initial_state
             = Some (st', Inr r) \<and> results r = scenario_results \<and> length (written st') = 1"
    by (simp add: lambda_handler_from_outcomes[OF scenario_slow_store_prepare_run _ scenario_slow_store_put_item]
          scenario_late_return_outcomes alarm_fires_def Let_def
          scenario_prepared_def written_initial_state)
next
  have p: "lambda_handler_try (scenario_slow_store_services scenario_exiting_module)
             scenario_environ scenario_event initial_state
           = Some (scenario_prepared scenario_exiting_module initial_state, Inl (SystemExit ''1''))"
    by (simp add: lambda_handler_eval[OF scenario_slow_store_prepare_run] assess_and_store_def
          scenario_exiting_outcomes)
  show "\<exists>st'. lambda_handler (scenario_slow_store_services scenario_exiting_module)
             scenario_environ scenario_event initial_state
           = Some (st', Inl (SystemExit ''1'')) \<and>
          written st' = []"
    by (simp add: lambda_handler_def p scenario_prepared_def written_initial_state)
qed

text \<open>
  C3, amended. For a run with both parameters given: a failure while resolving the
  definition, while loading the routine bundle, or while acquiring credentials ends the
  run; the handler raises that error to its caller, and nothing is written to the results
  table. In the evaluation, a criterion whose named routine is missing from the loaded
  module, and a criterion whose routine call ends in an exception that derives from
  \<^verbatim>\<open>Exception\<close> (the alarm's \<^verbatim>\<open>TimeoutError\<close> is one), do not end the loop: the loop
  appends for the criterion an outcome with \<open>implemented\<close> false, no points and the error,
  and goes on with the criteria that follow.
\<close>

theorem terminal_failures_and_absorbed_check_failures:
  assumes "ev_participantId ev = Some pid" "pid \<noteq> []" "ev_challengeId ev = Some cid" "cid \<noteq> []"
  shows
    "(load_challenge_config sv env cid st = (st1, Inl e) \<longrightarrow>
        (\<exists>st'. lambda_handler sv env ev st = Some (st', Inl e) \<and> written st' = written st)) \<and>
     (load_challenge_config sv env cid st = (st1, Inr cfg) \<and>
      s3Location cfg = Some loc \<and> checkFunctionsFile cfg = Some fname \<and>
      load_check_functions_from_s3 sv loc fname st1 = (st2, Inl e) \<longrightarrow>
        (\<exists>st'. lambda_handler sv env ev st = Some (st', Inl e) \<and> written st' = written st)) \<and>
     (load_challenge_config sv env cid st = (st1, Inr cfg) \<and>
      s3Location cfg = Some loc \<and> checkFunctionsFile cfg = Some fname \<and>
      load_check_functions_from_s3 sv loc fname st1 = (st2, Inr loaded) \<and>
      assume_assessment_role sv env (identify_team_account env (team_of ev)) st2 = (st3, Inl e) \<longrightarrow>
        (\<exists>st'. lambda_handler sv env ev st = Some (st', Inl e) \<and> written st' = written st)) \<and>
     (checkFunction c = Some f \<and> m f = None \<longrightarrow>
        (\<forall>cs results p.
            assess_criteria pid sn m cr (c # cs) results p =
            assess_criteria pid sn m cr cs
              (results @ [failure_outcome c (''Check function not found: '' @ f)]) p)) \<and>
     (checkFunction c = Some f \<and> m f = Some g \<and>
      invoke (g pid sn cr) = Some (q, Raises x) \<and> is_Exception x \<longrightarrow>
        (\<forall>cs results p.
            assess_criteria pid sn m cr (c # cs) results p =
            assess_criteria pid sn m cr cs (results @ [failure_outcome c (str_of x)]) q))"
proof (intro conjI impI)
  assume a: "load_challenge_config sv env cid st = (st1, Inl e)"
  then have "prepare_run sv env ev st = (st1, Inl e)"
    by (simp add: prepare_run_ids[OF assms])
  then show "\<exists>st'. lambda_handler sv env ev st = Some (st', Inl e) \<and> written st' = written st"
    by (rule preparation_failure_ends_the_run)
next
  assume a: "load_challenge_config sv env cid st = (st1, Inr cfg) \<and>
      s3Location cfg = Some loc \<and> checkFunctionsFile cfg = Some fname \<and>
      load_check_functions_from_s3 sv loc fname st1 = (st2, Inl e)"
  then have "prepare_run sv env ev st = (st2, Inl e)"
    by (simp add: prepare_run_ids[OF assms])
  then show "\<exists>st'. lambda_handler sv env ev st = Some (st', Inl e) \<and> written st' = written st"
    by (rule preparation_failure_ends_the_run)
next
  assume a: "load_challenge_config sv env cid st = (st1, Inr cfg) \<and>
      s3Location cfg = Some loc \<and> checkFunctionsFile cfg = Some fname \<and>
      load_check_functions_from_s3 sv loc fname st1 = (st2, Inr loaded) \<and>
      assume_assessment_role sv env (identify_team_account env (team_of ev)) st2 = (st3, Inl e)"
  then have "prepare_run sv env ev st = (st3, Inl e)"
    by (simp add: prepare_run_ids[OF assms])
  then show "\<exists>st'. lambda_handler sv env ev st = Some (st', Inl e) \<and> written st' = written st"
    by (rule preparation_failure_ends_the_run)
next
  assume "checkFunction c = Some f \<and> m f = None"
  then show "\<forall>cs results p.
            assess_criteria pid sn m cr (c # cs) results p =
            assess_criteria pid sn m cr cs
              (results @ [failure_outcome c (''Check function not found: '' @ f)]) p"
    by (simp add: check_criterion_missing)
next
  assume "checkFunction c = Some f \<and> m f = Some g \<and>
      invoke (g pid sn cr) = Some (q, Raises x) \<and> is_Exception x"
  then show "\<forall>cs results p.
            assess_criteria pid sn m cr (c # cs) results p =
            assess_criteria pid sn m cr cs (results @ [failure_outcome c (str_of x)]) q"
    by (simp add: check_criterion_absorbs[where g = g])
qed

text \<open>
  The cases in the scenario: an unknown challenge, a bundle that cannot be fetched, a role
  that cannot be assumed (each ends the run with nothing written), and the evaluation with
  a module whose \<^verbatim>\<open>checkBackup\<close> raises and that has no \<^verbatim>\<open>checkDLQ\<close>: both failures are
  absorbed, and the loop returns its two outcomes.
\<close>

theorem terminal_failures_and_absorbed_check_failures_witness:
  "(\<exists>st'. lambda_handler
            (scenario_services None (Inr ''code'') scenario_failing_module (Inr scenario_credentials) None)
            scenario_environ scenario_event initial_state
          = Some (st', Inl (Exception ''Challenge not found: demo'')) \<and> written st' = []) \<and>
   (\<exists>st'. lambda_handler
            (scenario_services (Some (scenario_config None [])) (Inl (ClientError ''NoSuchKey''))
               scenario_failing_module (Inr scenario_credentials) None)
            scenario_environ scenario_event initial_state
          = Some (st', Inl (Exception ''Failed to load check functions from S3: NoSuchKey'')) \<and>
          written st' = []) \<and>
   (\<exists>st'. lambda_handler
            (scenario_services (Some (scenario_config None [])) (Inr ''code'')
               scenario_failing_module (Inl (ClientError ''AccessDenied'')) None)
            scenario_environ scenario_event initial_state
          = Some (st', Inl (Exception ''Failed to assume role in participant account: AccessDenied'')) \<and>
          written st' = []) \<and>
   assess_criteria ''alice'' ''reliability-challenge-alice'' scenario_failing_module scenario_credentials
       scenario_criteria [] None =
     Some (Some 29500,
       Inr [failure_outcome (scenario_criteria ! 0) ''boom'',
            failure_outcome (scenario_criteria ! 1) ''Check function not found: checkDLQ''])"
proof (intro conjI)
  let ?st1 = "called (GetItem ''ctf-challenge-registry'' ''demo'') initial_state"
  let ?sv1 = "scenario_services None (Inr ''code'') scenario_failing_module (Inr scenario_credentials) None"
  have "load_challenge_config ?sv1 scenario_environ ''demo'' initial_state
          = (?st1, Inl (Exception ''Challenge not found: demo''))"
    by (simp add: scenario_load_challenge_config)
  with terminal_failures_and_absorbed_check_failures[OF scenario_ids,
        where sv = ?sv1 and env = scenario_environ and st = initial_state and ?st1.0 = ?st1
          and e = "Exception ''Challenge not found: demo''"]
  show "\<exists>st'. lambda_handler ?sv1 scenario_environ scenario_event initial_state
          = Some (st', Inl (Exception ''Challenge not found: demo'')) \<and> written st' = []"
    by (simp add: written_initial_state)
next
  let ?cfg = "scenario_config None []"
  let ?st1 = "called (GetItem ''ctf-challenge-registry'' ''demo'') initial_state"
  let ?st2 = "called (GetObject ''ctf-challenges'' ''demo/check-functions.py'') ?st1"
  let ?sv2 = "scenario_services (Some ?cfg) (Inl (ClientError ''NoSuchKey''))
               scenario_failing_module (Inr scenario_credentials) None"
  let ?e = "Exception ''Failed to load check functions from S3: NoSuchKey''"
  have "load_challenge_config ?sv2 scenario_environ ''demo'' initial_state = (?st1, Inr ?cfg)"
    by (simp add: scenario_load_challenge_config scenario_config_fields)
  moreover have "load_check_functions_from_s3 ?sv2 ''s3://ctf-challenges/demo/'' ''check-functions.py'' ?st1
      = (?st2, Inl ?e)"
    by (simp add: scenario_load_check_functions load_failure_def)
  ultimately show "\<exists>st'. lambda_handler ?sv2 scenario_environ scenario_event initial_state
          = Some (st', Inl ?e) \<and> written st' = []"
    using terminal_failures_and_absorbed_check_failures[OF scenario_ids,
        where sv = ?sv2 and env = scenario_environ and st = initial_state and ?st1.0 = ?st1
          and cfg = ?cfg and loc = "''s3://ctf-challenges/demo/''" and fname = "''check-functions.py''"
          and ?st2.0 = ?st2 and e = ?e]
    by (simp add: written_initial_state scenario_config_fields)
next
  let ?cfg = "scenario_config None []"
  let ?st1 = "called (GetItem ''ctf-challenge-registry'' ''demo'') initial_state"
  let ?st2 = "(called (GetObject ''ctf-challenges'' ''demo/check-functions.py'') ?st1)
      \<lparr> sys_modules := (sys_modules ?st1)(''check_functions_1700000000'' \<mapsto> scenario_failing_module) \<rparr>"
  let ?st3 = "called (AssumeRole ''arn:aws:iam::123456789012:role/AssessmentEngineAccessRole'' ''ctf-assessment-engine'') ?st2"
  let ?sv3 = "scenario_services (Some ?cfg) (Inr ''code'')
               scenario_failing_module (Inl (ClientError ''AccessDenied'')) None"
  let ?e = "Exception ''Failed to assume role in participant account: AccessDenied''"
  have "load_challenge_config ?sv3 scenario_environ ''demo'' initial_state = (?st1, Inr ?cfg)"
    by (simp add: scenario_load_challenge_config scenario_config_fields)
  moreover have "load_check_functions_from_s3 ?sv3 ''s3://ctf-challenges/demo/'' ''check-functions.py'' ?st1
      = (?st2, Inr scenario_failing_module)"
    by (simp add: scenario_load_check_functions)
  moreover have "assume_assessment_role ?sv3 scenario_environ
       (identify_team_account scenario_environ (team_of scenario_event)) ?st2 = (?st3, Inl ?e)"
    by (simp add: scenario_event_fields scenario_assume_role role_failure_def)
  ultimately show "\<exists>st'. lambda_handler ?sv3 scenario_environ scenario_event initial_state
          = Some (st', Inl ?e) \<and> written st' = []"
    using terminal_failures_and_absorbed_check_failures[OF scenario_ids,
        where sv = ?sv3 and env = scenario_environ and st = initial_state and ?st1.0 = ?st1
          and cfg = ?cfg and loc = "''s3://ctf-challenges/demo/''" and fname = "''check-functions.py''"
          and ?st2.0 = ?st2 and loaded = scenario_failing_module and ?st3.0 = ?st3 and e = ?e]
    by (simp add: written_initial_state scenario_config_fields)
next
  let ?m = scenario_failing_module
  let ?c0 = "scenario_criteria ! 0" and ?c1 = "scenario_criteria ! 1"
  have cs: "scenario_criteria = [?c0, ?c1]"
    by (simp add: scenario_criteria_def)
  have c0: "checkFunction ?c0 = Some ''checkBackup''" and c1: "checkFunction ?c1 = Some ''checkDLQ''"
    by (simp_all add: scenario_criteria_def)
  have m0: "?m ''checkBackup'' = Some (\<lambda>p s c. raises_after 500 (Exception ''boom''))"
    and m1: "?m ''checkDLQ'' = None"
    by (simp_all add: scenario_failing_module_def)
  have inv: "invoke (raises_after 500 (Exception ''boom'')) = Some (Some 29500, Raises (Exception ''boom''))"
    by (simp add: invoke_raises_after)
  have first: "assess_criteria ''alice'' ''reliability-challenge-alice'' ?m scenario_credentials
                 (?c0 # [?c1]) [] None =
               assess_criteria ''alice'' ''reliability-challenge-alice'' ?m scenario_credentials
                 [?c1] [failure_outcome ?c0 ''boom''] (Some 29500)"
    using terminal_failures_and_absorbed_check_failures[OF scenario_ids,
        where c = ?c0 and f = "''checkBackup''" and m = ?m
          and g = "\<lambda>p s c. raises_after 500 (Exception ''boom'')"
          and sn = "''reliability-challenge-alice''" and cr = scenario_credentials
          and q = "Some 29500" and x = "Exception ''boom''"]
      c0 m0 inv
    by simp
  have second: "assess_criteria ''alice'' ''reliability-challenge-alice'' ?m scenario_credentials
                 (?c1 # []) [failure_outcome ?c0 ''boom''] (Some 29500) =
               Some (Some 29500,
                 Inr [failure_outcome ?c0 ''boom'', failure_outcome ?c1 ''Check function not found: checkDLQ''])"
    using terminal_failures_and_absorbed_check_failures[OF scenario_ids,
        where c = ?c1 and f = "''checkDLQ''" and m = ?m
          and sn = "''reliability-challenge-alice''" and cr = scenario_credentials]
      c1 m1
    by simp
  have "assess_criteria ''alice'' ''reliability-challenge-alice'' ?m scenario_credentials
          [?c0, ?c1] [] None =
        Some (Some 29500,
          Inr [failure_outcome ?c0 ''boom'', failure_outcome ?c1 ''Check function not found: checkDLQ''])"
    by (simp only: first second)
  with cs show "assess_criteria ''alice'' ''reliability-challenge-alice'' ?m scenario_credentials
       scenario_criteria [] None =
     Some (Some 29500,
       Inr [failure_outcome ?c0 ''boom'', failure_outcome ?c1 ''Check function not found: checkDLQ''])"
    by simp
qed

text \<open>
  C4, as stated, fails. In the scenario the score is computed (10 of 20) and the results
  table then rejects the write: the handler does not return the response, it raises.
\<close>

theorem store_failure_counterexample:
  "map_option snd
     (lambda_handler scenario_store_failing_services scenario_environ scenario_event initial_state) =
     Some (Inl (Exception ''Failed to store assessment results: ProvisionedThroughputExceededException''))"
  by (simp add: scenario_store_failing_run)

text \<open>
  C4, amended. For every run in which the score has been computed, a failure of the
  results-table write makes the run fail: the handler raises, the caller receives no
  response, and nothing is written. What is raised is the failure of the write, logged
  and raised again (\<open>store_failure\<close>: a \<^verbatim>\<open>ClientError\<close> as ``Failed to store assessment
  results: ...''); only when an alarm that a raising routine has left armed goes off during
  the write is it the alarm's \<^verbatim>\<open>TimeoutError\<close> instead.
\<close>

theorem store_failure_fails_the_run:
  assumes "prepare_run sv env ev st = (st3, Inr ctx)"
      and "run_assessment (ctx_participant_id ctx) (ctx_challenge_config ctx) (ctx_check_functions ctx)
             (ctx_assumed_credentials ctx) = Some (pending, Inr rs)"
      and "put_item sv (results_table env)
             (result_item (ctx_participant_id ctx) (ctx_challenge_id ctx) (ctx_team_id ctx) rs
                (calculate_score rs) (passing_score (ctx_challenge_config ctx) \<le> calculate_score rs))
           = (elapsed_ms, Some e)"
  shows "\<exists>st'. lambda_handler sv env ev st =
                 Some (st', Inl (if alarm_fires pending elapsed_ms then timeout_error
                                 else store_failure e)) \<and>
               written st' = written st"
proof -
  from prepare_run_written[OF assms(1)] have w: "written st3 = written st" .
  show ?thesis
    using w by (simp add: lambda_handler_from_outcomes[OF assms] Let_def)
qed

text \<open>
  In the scenario with the rejecting results table the run fails with the wrapped error
  and nothing is written.
\<close>

theorem store_failure_fails_the_run_witness:
  "\<exists>st'. lambda_handler scenario_store_failing_services scenario_environ scenario_event initial_state =
      Some (st', Inl (Exception ''Failed to store assessment results: ProvisionedThroughputExceededException'')) \<and>
     written st' = []"
proof -
  let ?m = "scenario_module (returns_implemented (PBool True)) (returns_implemented (PBool False))"
  let ?ctx = "\<lparr> ctx_participant_id = ''alice'', ctx_challenge_id = ''demo'', ctx_team_id = ''default-team'',
             ctx_challenge_config = scenario_config (Some (PStr ''true'')) [], ctx_check_functions = ?m,
             ctx_assumed_credentials = scenario_credentials \<rparr>"
  have r: "run_assessment (ctx_participant_id ?ctx) (ctx_challenge_config ?ctx) (ctx_check_functions ?ctx)
             (ctx_assumed_credentials ?ctx) = Some (None, Inr scenario_results)"
    by (simp add: scenario_outcomes)
  from store_failure_fails_the_run[OF scenario_store_failing_prepare_run r scenario_store_failing_put_item]
  show ?thesis by (simp add: store_failure_def written_initial_state alarm_fires_def)
qed

text \<open>
  C5, as stated, fails. \<^verbatim>\<open>checkBackup\<close> returns \<^verbatim>\<open>{'implemented': 'yes'}\<close> and \<^verbatim>\<open>checkDLQ\<close>
  returns \<^verbatim>\<open>{'implemented': 0}\<close>: neither value is a boolean, neither outcome carries an
  error, and the truthiness of \<^verbatim>\<open>'yes'\<close> earns the ten points.
\<close>

theorem truthy_value_earns_points_counterexample:
  "run_assessment ''alice'' (scenario_config None [])
       (scenario_module (returns_implemented (PStr ''yes'')) (returns_implemented (PInt 0)))
       scenario_credentials =
     Some (None,
       Inr [\<lparr> criterionId = Some ''pitr'', name = Some ''Point-in-time recovery'', points = 10,
              maxPoints = 10, implemented = PStr ''yes'', details = Some (PDict []), error = None \<rparr>,
            \<lparr> criterionId = Some ''dlq'', name = Some ''Dead-letter queue'', points = 0,
              maxPoints = 10, implemented = PInt 0, details = Some (PDict []), error = None \<rparr>])"
  by (simp add: run_assessment_def scenario_config_fields scenario_criteria_def
        check_criterion_def scenario_module_def returns_implemented_def invoke_returns_after
        execute_check_function_def dict_get_def points_of_def)

text \<open>
  C5, amended. For every routine call that returns before the deadline, the engine checks
  that the returned value is a dictionary and that it has the key \<^verbatim>\<open>implemented\<close>. A value
  that is not a dictionary, or a dictionary without the key, gives an outcome with
  \<open>implemented\<close> false, no points and an error naming the violation. A dictionary with the
  key is accepted whatever the type of the value: the outcome carries the value as it is,
  without an error, and the value's truthiness decides whether the points are earned.
\<close>

theorem returned_value_is_checked_for_the_key:
  assumes "checkFunction c = Some f" and "m f = Some g"
      and "undisturbed (g pid sn cr) = Finishes t (Returns v)" and "\<not> timed_out t"
  shows "(\<forall>d x. v = PDict d \<and> map_of d ''implemented'' = Some x \<longrightarrow>
            (\<exists>r. check_criterion pid sn m cr pending c = Some (None, Inr r) \<and>
                 implemented r = x \<and> error r = None \<and>
                 points r = (if truthy x then points_of c else 0))) \<and>
         (\<forall>d. v = PDict d \<and> map_of d ''implemented'' = None \<longrightarrow>
            (\<exists>r. check_criterion pid sn m cr pending c = Some (None, Inr r) \<and>
                 implemented r = PBool False \<and> points r = 0 \<and>
                 error r = Some (''Check function result must include '' @ [CHR 0x27] @ ''implemented''
                                 @ [CHR 0x27] @ '' key''))) \<and>
         ((\<forall>d. v \<noteq> PDict d) \<longrightarrow>
            (\<exists>r. check_criterion pid sn m cr pending c = Some (None, Inr r) \<and>
                 implemented r = PBool False \<and> points r = 0 \<and>
                 error r = Some ''Check function must return a dictionary''))"
proof (intro conjI allI impI)
  note inv = invoke_in_time[OF assms(3,4)]
  fix d x
  assume "v = PDict d \<and> map_of d ''implemented'' = Some x"
  with assms(1,2) inv
  show "\<exists>r. check_criterion pid sn m cr pending c = Some (None, Inr r) \<and>
                 implemented r = x \<and> error r = None \<and>
                 points r = (if truthy x then points_of c else 0)"
    by (simp add: check_criterion_def execute_check_function_def dict_get_def)
next
  note inv = invoke_in_time[OF assms(3,4)]
  fix d
  assume "v = PDict d \<and> map_of d ''implemented'' = None"
  with assms(1,2) inv
  show "\<exists>r. check_criterion pid sn m cr pending c = Some (None, Inr r) \<and>
                 implemented r = PBool False \<and> points r = 0 \<and>
                 error r = Some (''Check function result must include '' @ [CHR 0x27] @ ''implemented''
                                 @ [CHR 0x27] @ '' key'')"
    by (simp add: check_criterion_def execute_check_function_def)
next
  note inv = invoke_in_time[OF assms(3,4)]
  assume "\<forall>d. v \<noteq> PDict d"
  then have "validate_result v = Inl (ValueError ''Check function must return a dictionary'')"
    by (cases v) simp_all
  with assms(1,2) inv
  show "\<exists>r. check_criterion pid sn m cr pending c = Some (None, Inr r) \<and>
                 implemented r = PBool False \<and> points r = 0 \<and>
                 error r = Some ''Check function must return a dictionary''"
    by (simp add: check_criterion_def execute_check_function_def)
qed

text \<open>
  The three cases for the scenario's first criterion: the value \<^verbatim>\<open>'yes'\<close> under the key, a
  dictionary without the key, and a value that is not a dictionary.
\<close>

theorem returned_value_is_checked_for_the_key_witness:
  "(\<exists>r. check_criterion ''alice'' ''reliability-challenge-alice''
            (scenario_module (returns_implemented (PStr ''yes'')) never_returns) scenario_credentials
            None (scenario_criteria ! 0) = Some (None, Inr r) \<and>
        implemented r = PStr ''yes'' \<and> error r = None \<and> points r = 10) \<and>
   (\<exists>r. check_criterion ''alice'' ''reliability-challenge-alice''
            (scenario_module (returns_after 1000 (PDict [])) never_returns) scenario_credentials
            None (scenario_criteria ! 0) = Some (None, Inr r) \<and>
        implemented r = PBool False \<and> points r = 0 \<and>
        error r = Some (''Check function result must include '' @ [CHR 0x27] @ ''implemented''
                        @ [CHR 0x27] @ '' key'')) \<and>
   (\<exists>r. check_criterion ''alice'' ''reliability-challenge-alice''
            (scenario_module (returns_after 1000 (PBool True)) never_returns) scenario_credentials
            None (scenario_criteria ! 0) = Some (None, Inr r) \<and>
        implemented r = PBool False \<and> points r = 0 \<and>
        error r = Some ''Check function must return a dictionary'')"
proof -
  have early: "\<not> timed_out 1000"
    by (simp add: timed_out_def alarm_seconds_def)
  have m: "\<And>b. scenario_module b never_returns ''checkBackup'' = Some (\<lambda>p s c. b)"
    by (simp add: scenario_module_def)
  have u: "\<And>v. undisturbed (returns_after 1000 v) = Finishes 1000 (Returns v)"
    by (simp add: returns_after_def)
  note inst = returned_value_is_checked_for_the_key[
      where c = "scenario_criteria ! 0" and f = "''checkBackup''" and pid = "''alice''"
        and sn = "''reliability-challenge-alice''" and cr = scenario_credentials and t = 1000
        and pending = None,
      OF scenario_first_criterion(1) _ _ early]
  have a: "\<exists>r. check_criterion ''alice'' ''reliability-challenge-alice''
            (scenario_module (returns_implemented (PStr ''yes'')) never_returns) scenario_credentials
            None (scenario_criteria ! 0) = Some (None, Inr r) \<and>
        implemented r = PStr ''yes'' \<and> error r = None \<and> points r = 10"
    using inst[where m = "scenario_module (returns_implemented (PStr ''yes'')) never_returns"
                 and g = "\<lambda>p s c. returns_implemented (PStr ''yes'')"
                 and v = "PDict [(''implemented'', PStr ''yes'')]", OF m]
    by (simp add: returns_implemented_def scenario_first_criterion u)
  have b: "\<exists>r. check_criterion ''alice'' ''reliability-challenge-alice''
            (scenario_module (returns_after 1000 (PDict [])) never_returns) scenario_credentials
            None (scenario_criteria ! 0) = Some (None, Inr r) \<and>
        implemented r = PBool False \<and> points r = 0 \<and>
        error r = Some (''Check function result must include '' @ [CHR 0x27] @ ''implemented''
                        @ [CHR 0x27] @ '' key'')"
    using inst[where m = "scenario_module (returns_after 1000 (PDict [])) never_returns"
                 and g = "\<lambda>p s c. returns_after 1000 (PDict [])" and v = "PDict []", OF m]
    by (simp add: u)
  have c: "\<exists>r. check_criterion ''alice'' ''reliability-challenge-alice''
            (scenario_module (returns_after 1000 (PBool True)) never_returns) scenario_credentials
            None (scenario_criteria ! 0) = Some (None, Inr r) \<and>
        implemented r = PBool False \<and> points r = 0 \<and>
        error r = Some ''Check function must return a dictionary''"
    using inst[where m = "scenario_module (returns_after 1000 (PBool True)) never_returns"
                 and g = "\<lambda>p s c. returns_after 1000 (PBool True)" and v = "PBool True", OF m]
    by (simp add: u)
  from a b c show ?thesis by (intro conjI)
qed

text \<open>
  C6, as stated, fails. A definition that asks for a deadline of 60 seconds is evaluated
  under the 30 seconds of the alarm all the same: a routine that takes 45 seconds times out.
  And an execution that exceeds the deadline does not always end in a timeout outcome: the
  alarm raises \<^verbatim>\<open>TimeoutError\<close> inside the routine, and a routine that catches it (an
  \<^verbatim>\<open>except Exception\<close> around its work) and returns its dictionary after 45 seconds has
  the dictionary accepted and earns the points.
\<close>

theorem deadline_not_configurable_counterexample:
  "run_assessment ''alice'' (scenario_config None [(''timeoutSeconds'', PInt 60)])
       (scenario_module (returns_after 45000 (PDict [(''implemented'', PBool True)]))
          (returns_implemented (PBool True)))
       scenario_credentials =
     Some (None,
       Inr [\<lparr> criterionId = Some ''pitr'', name = Some ''Point-in-time recovery'', points = 0,
              maxPoints = 10, implemented = PBool False, details = None,
              error = Some ''Check function execution timed out'' \<rparr>,
            \<lparr> criterionId = Some ''dlq'', name = Some ''Dead-letter queue'', points = 10,
              maxPoints = 10, implemented = PBool True, details = Some (PDict []), error = None \<rparr>]) \<and>
   run_assessment ''alice'' (scenario_config None [(''timeoutSeconds'', PInt 60)])
       (scenario_module (swallows_alarm 45000 (PDict [(''implemented'', PBool True)]))
          (returns_implemented (PBool True)))
       scenario_credentials =
     Some (None,
       Inr [\<lparr> criterionId = Some ''pitr'', name = Some ''Point-in-time recovery'', points = 10,
              maxPoints = 10, implemented = PBool True, details = Some (PDict []), error = None \<rparr>,
            \<lparr> criterionId = Some ''dlq'', name = Some ''Dead-letter queue'', points = 10,
              maxPoints = 10, implemented = PBool True, details = Some (PDict []), error = None \<rparr>])"
  by (simp add: scenario_slow_outcomes scenario_catching_outcomes)

text \<open>
  C6, amended. Every routine is invoked under a wall-clock deadline of 30 seconds, the same
  for every definition. When an execution exceeds the 30 seconds, \<^verbatim>\<open>TimeoutError\<close> is
  raised inside the routine; if the routine lets it propagate, the loop appends for the
  criterion the outcome with \<open>implemented\<close> false, no points and the timeout error, and
  goes on with the criteria that follow, whatever came before. A routine that returns within
  30 seconds gets an outcome without the timeout error. And in the list of a run whose
  evaluation returned, which has one entry per criterion, the criterion's entry is the one
  just described.
\<close>

theorem deadline_is_thirty_seconds_for_every_definition:
  assumes "i < length (criteria_of cfg)"
      and "checkFunction (criteria_of cfg ! i) = Some f" and "m f = Some g"
  shows "(exceeds_deadline 30 (g pid (stack_name_of cfg pid) cr) \<and>
          lets_timeout_propagate (g pid (stack_name_of cfg pid) cr) \<longrightarrow>
            (\<forall>cs results p.
                assess_criteria pid (stack_name_of cfg pid) m cr (criteria_of cfg ! i # cs) results p =
                assess_criteria pid (stack_name_of cfg pid) m cr cs
                  (results @ [failure_outcome (criteria_of cfg ! i) ''Check function execution timed out'']) None)) \<and>
         (\<forall>t v. undisturbed (g pid (stack_name_of cfg pid) cr) = Finishes t (Returns v) \<and> t < 30 * 1000 \<longrightarrow>
            (\<forall>p. \<exists>r. check_criterion pid (stack_name_of cfg pid) m cr p (criteria_of cfg ! i)
                          = Some (None, Inr r) \<and>
                        error r \<noteq> Some ''Check function execution timed out'')) \<and>
         (\<forall>pending rs. run_assessment pid cfg m cr = Some (pending, Inr rs) \<longrightarrow>
            length rs = length (criteria_of cfg) \<and>
            (exceeds_deadline 30 (g pid (stack_name_of cfg pid) cr) \<and>
             lets_timeout_propagate (g pid (stack_name_of cfg pid) cr) \<longrightarrow>
               rs ! i = failure_outcome (criteria_of cfg ! i) ''Check function execution timed out'') \<and>
            (\<forall>t v. undisturbed (g pid (stack_name_of cfg pid) cr) = Finishes t (Returns v) \<and> t < 30 * 1000 \<longrightarrow>
               error (rs ! i) \<noteq> Some ''Check function execution timed out''))"
proof -
  let ?sn = "stack_name_of cfg pid"
  let ?c = "criteria_of cfg ! i"
  let ?b = "g pid ?sn cr"
  have step: "check_criterion pid ?sn m cr p ?c = Some (None, Inr (failure_outcome ?c ''Check function execution timed out''))"
    if "exceeds_deadline 30 ?b \<and> lets_timeout_propagate ?b" for p
    using check_criterion_timed_out[where m = m and f = f and g = g and pid = pid and sn = ?sn
        and cr = cr, OF assms(2,3)] that
    by simp
  have late: "\<forall>cs results p.
                assess_criteria pid ?sn m cr (?c # cs) results p =
                assess_criteria pid ?sn m cr cs (results @ [failure_outcome ?c ''Check function execution timed out'']) None"
    if "exceeds_deadline 30 ?b \<and> lets_timeout_propagate ?b"
    by (simp add: step[OF that])
  have early: "\<exists>r. check_criterion pid ?sn m cr p ?c = Some (None, Inr r) \<and>
                   error r \<noteq> Some ''Check function execution timed out''"
    if "undisturbed ?b = Finishes t (Returns v) \<and> t < 30 * 1000" for t v p
    using check_criterion_in_time[where m = m and f = f and g = g and pid = pid and sn = ?sn
        and cr = cr, OF assms(2,3)] that
    by blast
  have run: "length rs = length (criteria_of cfg) \<and>
            (exceeds_deadline 30 ?b \<and> lets_timeout_propagate ?b \<longrightarrow> rs ! i = failure_outcome ?c ''Check function execution timed out'') \<and>
            (\<forall>t v. undisturbed ?b = Finishes t (Returns v) \<and> t < 30 * 1000 \<longrightarrow>
               error (rs ! i) \<noteq> Some ''Check function execution timed out'')"
    if r: "run_assessment pid cfg m cr = Some (pending, Inr rs)" for pending rs
  proof -
    from run_assessment_nth[OF r assms(1), of None] obtain p' where
      c: "check_criterion pid ?sn m cr None ?c = Some (p', Inr (rs ! i))" by blast
    have "rs ! i = failure_outcome ?c ''Check function execution timed out''" if "exceeds_deadline 30 ?b \<and> lets_timeout_propagate ?b"
      using step[OF that, of None] c by simp
    moreover have "error (rs ! i) \<noteq> Some ''Check function execution timed out''"
      if "undisturbed ?b = Finishes t (Returns v) \<and> t < 30 * 1000" for t v
      using early[OF that, of None] c by auto
    ultimately show ?thesis using run_assessment_length[OF r] by blast
  qed
  from late early run show ?thesis by blast
qed

text \<open>
  In the scenario the first routine takes 45 seconds and times out, and the second one,
  back after a second, is evaluated and does not time out.
\<close>

theorem deadline_is_thirty_seconds_for_every_definition_witness:
  "assess_criteria ''alice'' ''reliability-challenge-alice''
       (scenario_module (returns_after 45000 (PDict [(''implemented'', PBool True)]))
          (returns_implemented (PBool True)))
       scenario_credentials scenario_criteria [] None =
   assess_criteria ''alice'' ''reliability-challenge-alice''
       (scenario_module (returns_after 45000 (PDict [(''implemented'', PBool True)]))
          (returns_implemented (PBool True)))
       scenario_credentials (tl scenario_criteria) [failure_outcome (scenario_criteria ! 0) ''Check function execution timed out''] None \<and>
   (\<exists>pending rs.
      run_assessment ''alice'' (scenario_config None [(''timeoutSeconds'', PInt 60)])
          (scenario_module (returns_after 45000 (PDict [(''implemented'', PBool True)]))
             (returns_implemented (PBool True)))
          scenario_credentials = Some (pending, Inr rs) \<and>
      length rs = 2 \<and>
      implemented (rs ! 0) = PBool False \<and> points (rs ! 0) = 0 \<and>
      error (rs ! 0) = Some ''Check function execution timed out'' \<and>
      error (rs ! 1) \<noteq> Some ''Check function execution timed out'')"
proof -
  let ?cfg = "scenario_config None [(''timeoutSeconds'', PInt 60)]"
  let ?slow = "returns_after 45000 (PDict [(''implemented'', PBool True)])"
  let ?m = "scenario_module ?slow (returns_implemented (PBool True))"
  obtain pending rs where run: "run_assessment ''alice'' ?cfg ?m scenario_credentials = Some (pending, Inr rs)"
    using scenario_slow_outcomes by blast
  have n: "length (criteria_of ?cfg) = 2"
    by (simp add: scenario_config_fields scenario_criteria_def)
  have i0: "0 < length (criteria_of ?cfg)" and i1: "1 < length (criteria_of ?cfg)"
    by (simp_all add: n)
  have c0: "checkFunction (criteria_of ?cfg ! 0) = Some ''checkBackup''"
    and c1: "checkFunction (criteria_of ?cfg ! 1) = Some ''checkDLQ''"
    by (simp_all add: scenario_config_fields scenario_criteria_def)
  have m0: "?m ''checkBackup'' = Some (\<lambda>p s c. ?slow)"
    and m1: "?m ''checkDLQ'' = Some (\<lambda>p s c. returns_implemented (PBool True))"
    by (simp_all add: scenario_module_def)
  have late: "exceeds_deadline 30 ?slow" "lets_timeout_propagate ?slow"
    by (simp_all add: exceeds_deadline_def lets_timeout_propagate_def returns_after_def)
  have quick: "undisturbed (returns_implemented (PBool True))
                 = Finishes 1000 (Returns (PDict [(''implemented'', PBool True)]))"
    by (simp add: returns_implemented_def returns_after_def)
  have cs: "scenario_criteria = scenario_criteria ! 0 # tl scenario_criteria"
    by (simp add: scenario_criteria_def)
  note first = deadline_is_thirty_seconds_for_every_definition[
      where cfg = ?cfg and i = 0 and pid = "''alice''" and cr = scenario_credentials
        and m = ?m and f = "''checkBackup''" and g = "\<lambda>p s c. ?slow",
      OF i0 c0 m0]
  note second = deadline_is_thirty_seconds_for_every_definition[
      where cfg = ?cfg and i = 1 and pid = "''alice''" and cr = scenario_credentials
        and m = ?m and f = "''checkDLQ''" and g = "\<lambda>p s c. returns_implemented (PBool True)",
      OF i1 c1 m1]
  from first late
  have "assess_criteria ''alice'' ''reliability-challenge-alice'' ?m scenario_credentials
          (scenario_criteria ! 0 # tl scenario_criteria) [] None =
        assess_criteria ''alice'' ''reliability-challenge-alice'' ?m scenario_credentials
          (tl scenario_criteria) ([] @ [failure_outcome (scenario_criteria ! 0) ''Check function execution timed out'']) None"
    by (simp add: scenario_config_fields)
  with cs have a: "assess_criteria ''alice'' ''reliability-challenge-alice'' ?m scenario_credentials
          scenario_criteria [] None =
        assess_criteria ''alice'' ''reliability-challenge-alice'' ?m scenario_credentials
          (tl scenario_criteria) [failure_outcome (scenario_criteria ! 0) ''Check function execution timed out''] None"
    by simp
  from first late run
  have b0: "length rs = 2 \<and> rs ! 0 = failure_outcome (scenario_criteria ! 0) ''Check function execution timed out''"
    by (simp add: scenario_config_fields n[simplified scenario_config_fields])
  from second quick run
  have b1: "error (rs ! 1) \<noteq> Some ''Check function execution timed out''"
    by (simp add: scenario_config_fields)
  from b0 b1 run
  have b: "\<exists>pending rs.
      run_assessment ''alice'' ?cfg ?m scenario_credentials = Some (pending, Inr rs) \<and>
      length rs = 2 \<and>
      implemented (rs ! 0) = PBool False \<and> points (rs ! 0) = 0 \<and>
      error (rs ! 0) = Some ''Check function execution timed out'' \<and>
      error (rs ! 1) \<noteq> Some ''Check function execution timed out''"
    by (intro exI[of _ pending] exI[of _ rs]) (simp add: failure_outcome_def)
  from a b show ?thesis by (rule conjI)
qed

text \<open>
  C7 asks that a scheduled event be dispatched to every active subject, and the trigger's
  own test expects ``Triggered 2 assessments'' for the scheduled event below with two active
  participants. The code answers otherwise: \<^verbatim>\<open>identifyEventSource\<close> returns the event's
  \<^verbatim>\<open>source\<close> (\<^verbatim>\<open>aws.events\<close>, which every scheduled event of the event bus carries)
  before it looks at \<^verbatim>\<open>detail-type\<close>, no case of \<^verbatim>\<open>extractParticipantIds\<close> matches, the
  active participants are never queried and nothing is invoked.
\<close>

theorem scheduled_event_of_the_test_triggers_nothing:
  "handler (test_aws [''test-user-1'', ''test-user-2'']) test_scheduled_event =
     \<lparr> statusCode = 200, message = ''No participants to assess'', body_source = None,
       body_results = [], invoked = [] \<rparr>"
  by (simp add: handler_def identifyEventSource_def js_truthy_def test_scheduled_event_def
        extractParticipantIds_def)

text \<open>
  C8. Within one dispatch cycle no participant is dispatched twice, whatever the event; and
  when the trigger enumerates the active participants for a scheduled event and the query
  yields \<open>[a, b, a]\<close>, exactly two assessments are dispatched, one for \<open>a\<close> and one for
  \<open>b\<close>, and both are reported as triggered when the invocations are accepted. (The work
  item of the trigger is the participant: its payload carries no definition.)
\<close>

theorem each_participant_dispatched_once:
  "distinct (invoked (handler svc e)) \<and>
   (identifyEventSource e = ''scheduled-event'' \<and> dynamoDB_query svc = Inr [a, b, a] \<and> a \<noteq> b \<longrightarrow>
      invoked (handler svc e) = [a, b] \<and>
      map dr_participantId (body_results (handler svc e)) = [a, b] \<and>
      ((\<exists>ra rb. lambda_invoke svc a = Inr ra \<and> lambda_invoke svc b = Inr rb) \<longrightarrow>
         message (handler svc e) = ''Triggered 2 assessments (0 failed)''))"
proof (intro conjI impI)
  show "distinct (invoked (handler svc e))"
    by (simp add: invoked_handler distinct_extractParticipantIds)
next
  assume a: "identifyEventSource e = ''scheduled-event'' \<and> dynamoDB_query svc = Inr [a, b, a] \<and> a \<noteq> b"
  then have ids: "extractParticipantIds e (identifyEventSource e) svc = [a, b]"
    by (simp add: extractParticipantIds_def getActiveParticipants_def js_Set_aba)
  then show "invoked (handler svc e) = [a, b]"
    by (simp add: invoked_handler)
  from ids show "map dr_participantId (body_results (handler svc e)) = [a, b]"
    by (simp add: handler_def Let_def triggerAssessment_def split: sum.splits)
  assume "\<exists>ra rb. lambda_invoke svc a = Inr ra \<and> lambda_invoke svc b = Inr rb"
  with ids show "message (handler svc e) = ''Triggered 2 assessments (0 failed)''"
    by (auto simp: handler_def Let_def triggerAssessment_def digit_char_def)
qed

text \<open>
  A scheduled event without a \<^verbatim>\<open>source\<close> whose query answers A, B, A: two dispatches.
\<close>

theorem each_participant_dispatched_once_witness:
  "invoked (handler (test_aws [''A'', ''B'', ''A'']) (test_scheduled_event\<lparr> source := None \<rparr>)) = [''A'', ''B''] \<and>
   message (handler (test_aws [''A'', ''B'', ''A'']) (test_scheduled_event\<lparr> source := None \<rparr>))
     = ''Triggered 2 assessments (0 failed)''"
proof -
  let ?e = "test_scheduled_event\<lparr> source := None \<rparr>"
  let ?svc = "test_aws [''A'', ''B'', ''A'']"
  have s: "identifyEventSource ?e = ''scheduled-event''"
    by (simp add: identifyEventSource_def js_truthy_def test_scheduled_event_def)
  have q: "dynamoDB_query ?svc = Inr [''A'', ''B'', ''A'']"
    by (simp add: test_aws_def)
  have ne: "''A'' \<noteq> ''B''" by simp
  have inv: "\<exists>ra rb. lambda_invoke ?svc ''A'' = Inr ra \<and> lambda_invoke ?svc ''B'' = Inr rb"
    by (simp add: test_aws_def)
  from each_participant_dispatched_once[of ?svc ?e "''A''" "''B''"] s q ne inv
  show ?thesis by blast
qed

text \<open>
  C9 asks for a name unique to each load. The name is \<^verbatim>\<open>check_functions_\<close> followed by
  the clock's whole seconds, so two loads within the same second (here at 200 and at 900
  milliseconds past it, for two different bundles) get the same name, and the second load
  replaces the first one's entry in \<^verbatim>\<open>sys.modules\<close>.
\<close>

theorem loads_in_the_same_second_share_a_name:
  "module_name_of 1700000000200 = ''check_functions_1700000000'' \<and>
   module_name_of 1700000000900 = ''check_functions_1700000000'' \<and>
   (let sv1 = scenario_services None (Inr ''code'') (scenario_module never_returns never_returns)
                (Inr scenario_credentials) None;
        sv2 = (scenario_services None (Inr ''code'') scenario_failing_module
                (Inr scenario_credentials) None)\<lparr> time_time := 1700000000900 \<rparr>;
        st1 = fst (load_check_functions_from_s3 sv1 ''s3://ctf-challenges/demo/''
                     ''check-functions.py'' initial_state);
        st2 = fst (load_check_functions_from_s3 sv2 ''s3://ctf-challenges/other/''
                     ''check-functions.py'' st1)
    in sys_modules st1 ''check_functions_1700000000'' = Some (scenario_module never_returns never_returns) \<and>
       sys_modules st2 ''check_functions_1700000000'' = Some scenario_failing_module)"
proof -
  have n1: "module_name_of 1700000000200 = ''check_functions_1700000000''"
    by (simp add: module_name_of_def digit_char_def)
  have n2: "module_name_of 1700000000900 = ''check_functions_1700000000''"
    by (simp add: module_name_of_def digit_char_def)
  show ?thesis
    unfolding Let_def
    by (simp add: n1 n2 load_check_functions_from_s3_def scenario_services_def Let_def called_def
          split_first_slash_def)
qed

text \<open>
  C10. The resolver treats a fetched registry item as active exactly when its \<^verbatim>\<open>active\<close>
  attribute is absent or is the string \<^verbatim>\<open>'true'\<close>; with any other stored value (the
  boolean true included) resolution fails with ``Challenge is not active'', and when no
  item exists it fails with ``Challenge not found''. In both failure cases the handler
  raises that error having called only the registry and the error metric: no bundle is
  loaded, no role is assumed and nothing is stored.
\<close>

theorem active_attribute_decides_resolution:
  assumes "ev_participantId ev = Some pid" "pid \<noteq> []" "ev_challengeId ev = Some cid" "cid \<noteq> []"
  shows
    "(get_item sv (registry_table env) cid = Inr (Some cfg) \<longrightarrow>
        (active cfg = None \<or> active cfg = Some (PStr ''true'') \<longrightarrow>
           load_challenge_config sv env cid st = (called (GetItem (registry_table env) cid) st, Inr cfg)) \<and>
        (active cfg \<noteq> None \<and> active cfg \<noteq> Some (PStr ''true'') \<longrightarrow>
           load_challenge_config sv env cid st =
             (called (GetItem (registry_table env) cid) st,
              Inl (Exception (''Challenge is not active: '' @ cid))) \<and>
           lambda_handler sv env ev st =
             Some (st\<lparr> calls := calls st @ [GetItem (registry_table env) cid,
                                        PutMetricData [''AssessmentErrors'']] \<rparr>,
              Inl (Exception (''Challenge is not active: '' @ cid))))) \<and>
     (get_item sv (registry_table env) cid = Inr None \<longrightarrow>
        load_challenge_config sv env cid st =
          (called (GetItem (registry_table env) cid) st,
           Inl (Exception (''Challenge not found: '' @ cid))) \<and>
        lambda_handler sv env ev st =
          Some (st\<lparr> calls := calls st @ [GetItem (registry_table env) cid,
                                     PutMetricData [''AssessmentErrors'']] \<rparr>,
           Inl (Exception (''Challenge not found: '' @ cid))))"
proof -
  have failed: "lambda_handler sv env ev st =
          Some (st\<lparr> calls := calls st @ [GetItem (registry_table env) cid,
                                     PutMetricData [''AssessmentErrors'']] \<rparr>, Inl (Exception msg))"
    if "load_challenge_config sv env cid st =
          (called (GetItem (registry_table env) cid) st, Inl (Exception msg))" for msg
  proof -
    from that have "prepare_run sv env ev st =
          (called (GetItem (registry_table env) cid) st, Inl (Exception msg))"
      by (simp add: prepare_run_ids[OF assms])
    then show ?thesis
      by (simp add: lambda_handler_not_prepared called_def)
  qed
  have act: "load_challenge_config sv env cid st = (called (GetItem (registry_table env) cid) st, Inr cfg)"
    if "get_item sv (registry_table env) cid = Inr (Some cfg)"
       "active cfg = None \<or> active cfg = Some (PStr ''true'')"
    using that by (auto simp: load_challenge_config_def Let_def)
  have inact: "load_challenge_config sv env cid st =
             (called (GetItem (registry_table env) cid) st,
              Inl (Exception (''Challenge is not active: '' @ cid)))"
    if "get_item sv (registry_table env) cid = Inr (Some cfg)"
       "active cfg \<noteq> None \<and> active cfg \<noteq> Some (PStr ''true'')"
    using that by (auto simp: load_challenge_config_def Let_def split: option.splits)
  have nf: "load_challenge_config sv env cid st =
          (called (GetItem (registry_table env) cid) st,
           Inl (Exception (''Challenge not found: '' @ cid)))"
    if "get_item sv (registry_table env) cid = Inr None"
    using that by (simp add: load_challenge_config_def Let_def)
  from act inact nf failed show ?thesis by blast
qed

text \<open>
  In the scenario: an item whose \<^verbatim>\<open>active\<close> is the boolean true is not active, an unknown
  challenge is not found, and an item without the attribute resolves.
\<close>

theorem active_attribute_decides_resolution_witness:
  "lambda_handler
       (scenario_services (Some (scenario_config (Some (PBool True)) [])) (Inr ''code'')
          scenario_failing_module (Inr scenario_credentials) None)
       scenario_environ scenario_event initial_state =
     Some (initial_state\<lparr> calls := [GetItem ''ctf-challenge-registry'' ''demo'',
                                PutMetricData [''AssessmentErrors'']] \<rparr>,
      Inl (Exception ''Challenge is not active: demo'')) \<and>
   lambda_handler
       (scenario_services None (Inr ''code'') scenario_failing_module (Inr scenario_credentials) None)
       scenario_environ scenario_event initial_state =
     Some (initial_state\<lparr> calls := [GetItem ''ctf-challenge-registry'' ''demo'',
                                PutMetricData [''AssessmentErrors'']] \<rparr>,
      Inl (Exception ''Challenge not found: demo'')) \<and>
   load_challenge_config
       (scenario_services (Some (scenario_config None [])) (Inr ''code'')
          scenario_failing_module (Inr scenario_credentials) None)
       scenario_environ ''demo'' initial_state =
     (called (GetItem ''ctf-challenge-registry'' ''demo'') initial_state, Inr (scenario_config None []))"
proof -
  have tbl: "registry_table scenario_environ = ''ctf-challenge-registry''"
    by (simp add: registry_table_def scenario_environ_def)
  have reg: "\<And>x b m c s. get_item (scenario_services x b m c s) ''ctf-challenge-registry'' ''demo'' = Inr x"
    by (simp add: scenario_services_def)
  have c0: "calls initial_state = []"
    by (simp add: initial_state_def)
  note inst = active_attribute_decides_resolution[OF scenario_ids,
      where env = scenario_environ and st = initial_state]
  have a: "lambda_handler
       (scenario_services (Some (scenario_config (Some (PBool True)) [])) (Inr ''code'')
          scenario_failing_module (Inr scenario_credentials) None)
       scenario_environ scenario_event initial_state =
     Some (initial_state\<lparr> calls := [GetItem ''ctf-challenge-registry'' ''demo'',
                                PutMetricData [''AssessmentErrors'']] \<rparr>,
      Inl (Exception ''Challenge is not active: demo''))"
    using inst[where sv = "scenario_services (Some (scenario_config (Some (PBool True)) [])) (Inr ''code'')
          scenario_failing_module (Inr scenario_credentials) None"
        and cfg = "scenario_config (Some (PBool True)) []"]
    by (simp add: tbl reg c0 scenario_config_fields)
  have b: "lambda_handler
       (scenario_services None (Inr ''code'') scenario_failing_module (Inr scenario_credentials) None)
       scenario_environ scenario_event initial_state =
     Some (initial_state\<lparr> calls := [GetItem ''ctf-challenge-registry'' ''demo'',
                                PutMetricData [''AssessmentErrors'']] \<rparr>,
      Inl (Exception ''Challenge not found: demo''))"
    using inst[where sv = "scenario_services None (Inr ''code'') scenario_failing_module
                             (Inr scenario_credentials) None"]
    by (simp add: tbl reg c0)
  have c: "load_challenge_config
       (scenario_services (Some (scenario_config None [])) (Inr ''code'')
          scenario_failing_module (Inr scenario_credentials) None)
       scenario_environ ''demo'' initial_state =
     (called (GetItem ''ctf-challenge-registry'' ''demo'') initial_state, Inr (scenario_config None []))"
    using inst[where sv = "scenario_services (Some (scenario_config None [])) (Inr ''code'')
          scenario_failing_module (Inr scenario_credentials) None"
        and cfg = "scenario_config None []"]
    by (simp add: tbl reg scenario_config_fields)
  from a b c show ?thesis by (intro conjI)
qed

end
